theory Spec2Isabelle
  imports
    Complex_Main
    "HOL-Library.Sublist"
    "HOL-Library.Char_ord"
    "HOL-Library.List_Lexorder"
    "HOL-Library.Product_Lexorder"
begin

section \<open>Data frames of the mineral dashboard\<close>

text \<open>
  The three programs (\<^verbatim>\<open>DB.py\<close>, \<^verbatim>\<open>20DB.py\<close>, \<^verbatim>\<open>Top20DB.py\<close>) work on pandas data
  frames. A frame is modelled as its rows in order. The five basic columns
  \<^verbatim>\<open>Sampling Point\<close>, \<^verbatim>\<open>Type\<close>, \<^verbatim>\<open>YearMonth\<close>, \<^verbatim>\<open>lat\<close>, \<^verbatim>\<open>long\<close> are typed fields of a
  row; every other column is a concentration column, whose cell in a row is
  \<open>vals r c\<close>. A null cell (\<^verbatim>\<open>NaN\<close>, \<^verbatim>\<open>None\<close>) is \<open>None\<close>. Concentrations, coordinates
  and means are real numbers: rounding of 64-bit floats is not modelled.
  \<open>columns\<close> lists the labels of the concentration columns in the frame's order.
\<close>

record row =
  sampling_point :: "string option"
  sample_type :: "string option"
  year_month :: "string option"
  lat :: "real option"
  long :: "real option"
  vals :: "string \<Rightarrow> real option"

record frame =
  columns :: "string list"
  rows :: "row list"

text \<open>The grouping key \<^verbatim>\<open>gb = ["Sampling Point", "lat", "long", "Type"]\<close>.\<close>

type_synonym group_key = "string \<times> real \<times> real \<times> string"

text \<open>
  A row of an output frame: the columns \<^verbatim>\<open>keep_cols + [m, "average monthly concentration"]\<close>.
\<close>

record out_row =
  o_sampling_point :: "string option"
  o_lat :: "real option"
  o_long :: "real option"
  o_type :: "string option"
  o_year_month :: "string option"
  monthly_concentration :: "real option"
  average_monthly_concentration :: "real option"

text \<open>An output frame keeps its column labels, which \<^verbatim>\<open>rename\<close> changes.\<close>

record oframe =
  labels :: "string list"
  body :: "out_row list"

datatype py_error = KeyError string | TypeError | ValueError

text \<open>
  The dtype of a concentration column. \<^verbatim>\<open>read_csv\<close> gives \<^verbatim>\<open>float64\<close> to a column of numbers
  and nulls, and \<^verbatim>\<open>object\<close> to every column of a file that has a header line only.
\<close>

datatype dtype = Float64 | Object

section \<open>The pandas operations the programs call\<close>

text \<open>\<^verbatim>\<open>like in str(col)\<close>: the substring test of \<^verbatim>\<open>DataFrame.filter(like=...)\<close>.\<close>

fun str_contains :: "string \<Rightarrow> string \<Rightarrow> bool" where
  "str_contains like [] = (like = [])"
| "str_contains like (c # cs) = (prefix like (c # cs) \<or> str_contains like cs)"

definition filter_like :: "string \<Rightarrow> string list \<Rightarrow> string list" where
  "filter_like like cols = filter (str_contains like) cols"

text \<open>
  The group key of a row. \<^verbatim>\<open>groupby\<close> leaves out a row with a null in a key column
  (\<^verbatim>\<open>dropna=True\<close> is its default), so such a row has no key.
\<close>

definition key_of :: "row \<Rightarrow> group_key option" where
  "key_of r =
     (case sampling_point r of None \<Rightarrow> None | Some s \<Rightarrow>
       (case lat r of None \<Rightarrow> None | Some la \<Rightarrow>
         (case long r of None \<Rightarrow> None | Some lo \<Rightarrow>
           (case sample_type r of None \<Rightarrow> None | Some t \<Rightarrow> Some (s, la, lo, t)))))"

definition out_key :: "out_row \<Rightarrow> group_key option" where
  "out_key r =
     (case o_sampling_point r of None \<Rightarrow> None | Some s \<Rightarrow>
       (case o_lat r of None \<Rightarrow> None | Some la \<Rightarrow>
         (case o_long r of None \<Rightarrow> None | Some lo \<Rightarrow>
           (case o_type r of None \<Rightarrow> None | Some t \<Rightarrow> Some (s, la, lo, t)))))"

text \<open>The non-null cells of a column, in order.\<close>

fun non_null :: "real option list \<Rightarrow> real list" where
  "non_null [] = []"
| "non_null (None # vs) = non_null vs"
| "non_null (Some x # vs) = x # non_null vs"

text \<open>\<^verbatim>\<open>mean()\<close> skips nulls and is null (\<^verbatim>\<open>NaN\<close>) when nothing is left.\<close>

definition mean_skipna :: "real option list \<Rightarrow> real option" where
  "mean_skipna vs =
     (let xs = non_null vs
      in if xs = [] then None else Some (sum_list xs / real (length xs)))"

text \<open>\<^verbatim>\<open>sum(axis=1, min_count=1)\<close> over the cells of one row.\<close>

definition sum_min_count1 :: "real option list \<Rightarrow> real option" where
  "sum_min_count1 vs =
     (let xs = non_null vs in if xs = [] then None else Some (sum_list xs))"

text \<open>\<^verbatim>\<open>dropna(subset=..., how="all")\<close>: a row stays when some cell of the subset is not null.\<close>

definition dropna_all :: "string list \<Rightarrow> row list \<Rightarrow> row list" where
  "dropna_all cols rs = filter (\<lambda>r. list_ex (\<lambda>c. vals r c \<noteq> None) cols) rs"

text \<open>
  \<^verbatim>\<open>groupby(gb, as_index=False)[m].mean()\<close>: one entry per group key, the keys sorted
  (\<^verbatim>\<open>sort=True\<close>), each with the mean of the group's non-null cells.
\<close>

definition group_cells :: "string \<Rightarrow> row list \<Rightarrow> group_key \<Rightarrow> real option list" where
  "group_cells m rs g = map (\<lambda>r. vals r m) (filter (\<lambda>r. key_of r = Some g) rs)"

definition groupby_mean :: "string \<Rightarrow> row list \<Rightarrow> (group_key \<times> real option) list" where
  "groupby_mean m rs =
     map (\<lambda>g. (g, mean_skipna (group_cells m rs g)))
         (sort (remdups (List.map_filter key_of rs)))"

text \<open>
  \<^verbatim>\<open>nlargest(n, "average monthly concentration")\<close> with \<^verbatim>\<open>keep="first"\<close>: nothing when
  \<open>n \<le> 0\<close>; otherwise the first \<open>n\<close> entries of the ranking that lists the entries
  with a mean by mean descending (ties in the order of the frame: pandas sorts the
  negated values with a stable sort) and after them the entries with a null mean
  (pandas 2 sets the \<^verbatim>\<open>NaN\<close> rows aside and appends them to the sorted rest before it
  cuts at \<open>n\<close>). In \<^verbatim>\<open>DB.py\<close> no mean is null, and the placement of nulls plays no part.
\<close>

fun with_mean :: "(group_key \<times> real option) list \<Rightarrow> (group_key \<times> real) list" where
  "with_mean [] = []"
| "with_mean ((g, None) # es) = with_mean es"
| "with_mean ((g, Some x) # es) = (g, x) # with_mean es"

definition ranking :: "(group_key \<times> real option) list \<Rightarrow> (group_key \<times> real option) list" where
  "ranking es =
     map (\<lambda>(g, x). (g, Some x)) (sort_key (\<lambda>(g, x). - x) (with_mean es))
     @ filter (\<lambda>(g, mu). mu = None) es"

definition nlargest :: "int \<Rightarrow> (group_key \<times> real option) list \<Rightarrow> (group_key \<times> real option) list" where
  "nlargest n es = (if n \<le> 0 then [] else take (nat n) (ranking es))"

text \<open>
  \<^verbatim>\<open>merge(top_keys.assign(_keep=1), on=gb, how="inner")\<close>: the rows of the left frame
  whose key is one of \<open>top_keys\<close>, in the left frame's order. The keys of \<open>top_keys\<close>
  are distinct, so no row is repeated.
\<close>

definition merge_inner :: "group_key list \<Rightarrow> row list \<Rightarrow> row list" where
  "merge_inner top_keys rs =
     filter (\<lambda>r. case key_of r of None \<Rightarrow> False | Some g \<Rightarrow> g \<in> set top_keys) rs"

text \<open>The columns an output frame keeps of a row, with the value column \<open>m\<close> and a mean.\<close>

definition out_row_of :: "string \<Rightarrow> real option \<Rightarrow> row \<Rightarrow> out_row" where
  "out_row_of m avg r =
     \<lparr> o_sampling_point = sampling_point r, o_lat = lat r, o_long = long r,
       o_type = sample_type r, o_year_month = year_month r,
       monthly_concentration = vals r m,
       average_monthly_concentration = avg \<rparr>"

text \<open>
  \<^verbatim>\<open>merge(means_df, on=gb, how="left")\<close> followed by the column selection: every
  row of the left frame, with the mean of its key where \<open>means_df\<close> has that key and
  a null otherwise.
\<close>

definition lookup_mean :: "(group_key \<times> real option) list \<Rightarrow> row \<Rightarrow> real option" where
  "lookup_mean means r =
     (case key_of r of None \<Rightarrow> None
      | Some g \<Rightarrow> (case map_of means g of None \<Rightarrow> None | Some mu \<Rightarrow> mu))"

definition merge_left :: "(group_key \<times> real option) list \<Rightarrow> string \<Rightarrow> row list \<Rightarrow> out_row list" where
  "merge_left means m rs = map (\<lambda>r. out_row_of m (lookup_mean means r) r) rs"

definition rename_label :: "string \<Rightarrow> string \<Rightarrow> string \<Rightarrow> string" where
  "rename_label old new l = (if l = old then new else l)"

section \<open>\<^verbatim>\<open>select_topk_pairs\<close> of \<^verbatim>\<open>DB.py\<close>\<close>

text \<open>
  The model covers the calls in which \<^verbatim>\<open>filter(like=mineral)\<close> matches concentration
  columns only (a mineral name that occurs in the label of a basic column makes that
  label appear twice in \<^verbatim>\<open>basic_cols\<close>), on a base table that has the five basic
  columns and no column labelled \<^verbatim>\<open>_keep\<close> or \<^verbatim>\<open>average monthly concentration\<close>, with
  a non-empty mineral name and concentration columns of a float dtype. The function
  has no \<^verbatim>\<open>raise\<close> and checks none of its arguments; the two failures of pandas on
  the way (an empty mineral name, a column of dtype \<^verbatim>\<open>object\<close>) are in
  \<open>select_topk_pairs_call\<close> below. The rows of an output keep the order of
  \<^verbatim>\<open>Filtered_Base\<close>.
\<close>

definition keep_cols :: "string list" where
  "keep_cols = [''Sampling Point'', ''lat'', ''long'', ''Type'', ''YearMonth'']"

text \<open>
  \<^verbatim>\<open>Filtered_Base\<close> as the loop sees it: the rows of \<open>base\<close> with a non-null cell in
  some matched column (all rows when no column matches), and, when more than one
  column matches, the column \<^verbatim>\<open>Total\<close> holding the row sum of the matched columns.
\<close>

definition add_total :: "string list \<Rightarrow> row \<Rightarrow> row" where
  "add_total mm r = r\<lparr> vals := (vals r)(''Total'' := sum_min_count1 (map (vals r) mm)) \<rparr>"

definition Filtered_Base :: "string list \<Rightarrow> row list \<Rightarrow> row list" where
  "Filtered_Base mm rs =
     (let fb = (if mm \<noteq> [] then dropna_all mm rs else rs)
      in if length mm > 1 then map (add_total mm) fb else fb)"

definition metrics :: "string list \<Rightarrow> string list" where
  "metrics mm = (if length mm > 1 then mm @ [''Total''] else mm)"

text \<open>
  The body of the loop \<^verbatim>\<open>for m in mm\<close>: \<open>means_df\<close> is taken over \<^verbatim>\<open>fb\<close>, the rows
  with a value for \<open>m\<close>, and the merge is on \<^verbatim>\<open>Filtered_Base\<close> itself.
\<close>

definition means_df :: "row list \<Rightarrow> string \<Rightarrow> (group_key \<times> real option) list" where
  "means_df FB m = groupby_mean m (dropna_all [m] FB)"

definition top_keys :: "int \<Rightarrow> (group_key \<times> real option) list \<Rightarrow> group_key list" where
  "top_keys k means = map fst (nlargest k means)"

definition metric_frame :: "row list \<Rightarrow> string \<Rightarrow> int \<Rightarrow> oframe" where
  "metric_frame FB m k =
     \<lparr> labels = map (rename_label m ''monthly concentration'')
                     (keep_cols @ [m, ''average monthly concentration'']),
       body = merge_left (means_df FB m) m (merge_inner (top_keys k (means_df FB m)) FB) \<rparr>"

definition select_topk_pairs :: "frame \<Rightarrow> string \<Rightarrow> int \<Rightarrow> (string \<rightharpoonup> oframe)" where
  "select_topk_pairs base mineral k =
     (let mm = filter_like mineral (columns base);
          FB = Filtered_Base mm (rows base)
      in fold (\<lambda>m out. out(m \<mapsto> metric_frame FB m k)) (metrics mm) Map.empty)"

section \<open>\<^verbatim>\<open>get_top\<close> of \<^verbatim>\<open>20DB.py\<close> and \<^verbatim>\<open>Top20DB.py\<close>\<close>

definition VALUE_COL :: string where
  "VALUE_COL = ''monthly concentration''"

definition AVG_COL :: string where
  "AVG_COL = ''average monthly concentration''"

text \<open>
  The body of the inner loop, the same in both files. The frame \<open>df\<close> of one metric
  holds its values in the column \<^verbatim>\<open>monthly concentration\<close> and is not filtered before
  the means are taken. The second merge is called with \<^verbatim>\<open>suffixes=(None, "_y")\<close>: when
  \<open>df\<close> has a column \<^verbatim>\<open>average monthly concentration\<close> of its own, that column keeps
  its label and the merged means are labelled \<^verbatim>\<open>average monthly concentration_y\<close>, so
  the final column selection takes the column of \<open>df\<close>; otherwise it takes the means.
  The model covers frames that have the four key columns, \<^verbatim>\<open>YearMonth\<close> and the value
  column, of a float dtype (on a frame without one of them the call raises
  \<^verbatim>\<open>KeyError\<close>).
\<close>

definition get_top_frame :: "frame \<Rightarrow> int \<Rightarrow> oframe" where
  "get_top_frame df k =
     (let means = groupby_mean VALUE_COL (rows df);
          keep = merge_inner (top_keys k means) (rows df)
      in \<lparr> labels = keep_cols @ [VALUE_COL, AVG_COL],
           body = (if AVG_COL \<in> set (columns df)
                   then map (\<lambda>r. out_row_of VALUE_COL (vals r AVG_COL) r) keep
                   else merge_left means VALUE_COL keep) \<rparr>)"

text \<open>The nested dictionaries are association lists: mineral, then metric name.\<close>

definition get_top ::
  "(string \<times> (string \<times> frame) list) list \<Rightarrow> int \<Rightarrow> (string \<times> (string \<times> oframe) list) list" where
  "get_top base k =
     map (\<lambda>(mineral, sub). (mineral, map (\<lambda>(name, df). (name, get_top_frame df k)) sub)) base"

section \<open>The two functions with float64 arithmetic\<close>

text \<open>
  pandas computes a row sum and a group mean in 64-bit floats: the result is a
  function of the non-null values in their order, and in general not their exact sum
  or mean. \<open>fsum\<close> and \<open>fmean\<close> stand for these two functions; the definitions below are
  the two programs for any such pair, so what is proved of them holds of the
  programs whatever the rounding is. (A sum beyond the range of the floats, \<^verbatim>\<open>inf\<close>, is
  not a real number and stays outside.) Comparing and sorting floats is exact.
\<close>

record float_ops =
  fsum :: "real list \<Rightarrow> real"
  fmean :: "real list \<Rightarrow> real"

text \<open>The arithmetic without rounding.\<close>

definition exact_ops :: float_ops where
  "exact_ops = \<lparr> fsum = sum_list, fmean = (\<lambda>xs. sum_list xs / real (length xs)) \<rparr>"

definition mean_skipna_fl :: "float_ops \<Rightarrow> real option list \<Rightarrow> real option" where
  "mean_skipna_fl fl vs =
     (let xs = non_null vs in if xs = [] then None else Some (fmean fl xs))"

definition sum_min_count1_fl :: "float_ops \<Rightarrow> real option list \<Rightarrow> real option" where
  "sum_min_count1_fl fl vs =
     (let xs = non_null vs in if xs = [] then None else Some (fsum fl xs))"

definition groupby_mean_fl ::
  "float_ops \<Rightarrow> string \<Rightarrow> row list \<Rightarrow> (group_key \<times> real option) list" where
  "groupby_mean_fl fl m rs =
     map (\<lambda>g. (g, mean_skipna_fl fl (group_cells m rs g)))
         (sort (remdups (List.map_filter key_of rs)))"

definition add_total_fl :: "float_ops \<Rightarrow> string list \<Rightarrow> row \<Rightarrow> row" where
  "add_total_fl fl mm r =
     r\<lparr> vals := (vals r)(''Total'' := sum_min_count1_fl fl (map (vals r) mm)) \<rparr>"

definition Filtered_Base_fl :: "float_ops \<Rightarrow> string list \<Rightarrow> row list \<Rightarrow> row list" where
  "Filtered_Base_fl fl mm rs =
     (let fb = (if mm \<noteq> [] then dropna_all mm rs else rs)
      in if length mm > 1 then map (add_total_fl fl mm) fb else fb)"

definition means_df_fl ::
  "float_ops \<Rightarrow> row list \<Rightarrow> string \<Rightarrow> (group_key \<times> real option) list" where
  "means_df_fl fl FB m = groupby_mean_fl fl m (dropna_all [m] FB)"

definition metric_frame_fl :: "float_ops \<Rightarrow> row list \<Rightarrow> string \<Rightarrow> int \<Rightarrow> oframe" where
  "metric_frame_fl fl FB m k =
     \<lparr> labels = map (rename_label m ''monthly concentration'')
                     (keep_cols @ [m, ''average monthly concentration'']),
       body = merge_left (means_df_fl fl FB m) m
                (merge_inner (top_keys k (means_df_fl fl FB m)) FB) \<rparr>"

definition select_topk_pairs_fl ::
  "float_ops \<Rightarrow> frame \<Rightarrow> string \<Rightarrow> int \<Rightarrow> (string \<rightharpoonup> oframe)" where
  "select_topk_pairs_fl fl base mineral k =
     (let mm = filter_like mineral (columns base);
          FB = Filtered_Base_fl fl mm (rows base)
      in fold (\<lambda>m out. out(m \<mapsto> metric_frame_fl fl FB m k)) (metrics mm) Map.empty)"

definition get_top_frame_fl :: "float_ops \<Rightarrow> frame \<Rightarrow> int \<Rightarrow> oframe" where
  "get_top_frame_fl fl df k =
     (let means = groupby_mean_fl fl VALUE_COL (rows df);
          keep = merge_inner (top_keys k means) (rows df)
      in \<lparr> labels = keep_cols @ [VALUE_COL, AVG_COL],
           body = (if AVG_COL \<in> set (columns df)
                   then map (\<lambda>r. out_row_of VALUE_COL (vals r AVG_COL) r) keep
                   else merge_left means VALUE_COL keep) \<rparr>)"

text \<open>
  A call of \<^verbatim>\<open>select_topk_pairs\<close> with the two failures pandas has on the way.
  \<^verbatim>\<open>filter(like=mineral)\<close> raises \<^verbatim>\<open>TypeError\<close> for the empty string. \<^verbatim>\<open>nlargest\<close> raises
  \<^verbatim>\<open>TypeError\<close> when the column it ranks by has the dtype \<^verbatim>\<open>object\<close>, which the means of a
  column of that dtype have. \<open>dt\<close> gives the dtype of each concentration column of the
  base table; a column of dtype \<^verbatim>\<open>object\<close> holds no floats, so the model has such a column
  only in a table without rows (an empty table as \<^verbatim>\<open>read_csv\<close> loads it has only such
  columns). The row sum of float columns is a float column.
\<close>

definition nlargest_call ::
  "dtype \<Rightarrow> int \<Rightarrow> (group_key \<times> real option) list
     \<Rightarrow> py_error + (group_key \<times> real option) list" where
  "nlargest_call d n es = (case d of Object \<Rightarrow> Inl TypeError | Float64 \<Rightarrow> Inr (nlargest n es))"

definition metric_dtype :: "(string \<Rightarrow> dtype) \<Rightarrow> string list \<Rightarrow> string \<Rightarrow> dtype" where
  "metric_dtype dt mm m =
     (if length mm > 1 \<and> m = ''Total''
      then (if list_ex (\<lambda>c. dt c = Object) mm then Object else Float64)
      else dt m)"

definition metric_frame_call ::
  "float_ops \<Rightarrow> dtype \<Rightarrow> row list \<Rightarrow> string \<Rightarrow> int \<Rightarrow> py_error + oframe" where
  "metric_frame_call fl d FB m k =
     (case nlargest_call d k (means_df_fl fl FB m) of
        Inl e \<Rightarrow> Inl e
      | Inr largest \<Rightarrow>
          Inr \<lparr> labels = map (rename_label m ''monthly concentration'')
                               (keep_cols @ [m, ''average monthly concentration'']),
                body = merge_left (means_df_fl fl FB m) m (merge_inner (map fst largest) FB) \<rparr>)"

text \<open>The loop \<^verbatim>\<open>for m in mm\<close>: the first failure ends the call.\<close>

fun metrics_loop ::
  "float_ops \<Rightarrow> (string \<Rightarrow> dtype) \<Rightarrow> row list \<Rightarrow> int \<Rightarrow> string list
     \<Rightarrow> (string \<rightharpoonup> oframe) \<Rightarrow> py_error + (string \<rightharpoonup> oframe)" where
  "metrics_loop fl mdt FB k [] out = Inr out"
| "metrics_loop fl mdt FB k (m # ms) out =
     (case metric_frame_call fl (mdt m) FB m k of
        Inl e \<Rightarrow> Inl e
      | Inr f \<Rightarrow> metrics_loop fl mdt FB k ms (out(m \<mapsto> f)))"

definition select_topk_pairs_call ::
  "float_ops \<Rightarrow> (string \<Rightarrow> dtype) \<Rightarrow> frame \<Rightarrow> string \<Rightarrow> int
     \<Rightarrow> py_error + (string \<rightharpoonup> oframe)" where
  "select_topk_pairs_call fl dt base mineral k =
     (if mineral = [] then Inl TypeError
      else let mm = filter_like mineral (columns base);
               FB = Filtered_Base_fl fl mm (rows base)
           in metrics_loop fl (metric_dtype dt mm) FB k (metrics mm) Map.empty)"

section \<open>The figure builders\<close>

text \<open>
  \<^verbatim>\<open>build_geo_fig\<close> of \<^verbatim>\<open>DB.py\<close> reads \<^verbatim>\<open>point_agg["Total"]\<close>, which raises \<^verbatim>\<open>KeyError\<close>
  on a dictionary without that key; \<^verbatim>\<open>px.scatter_geo\<close> raises \<^verbatim>\<open>ValueError\<close> when the
  column given as marker size, the mean, has a negative value. The figure is kept as
  the frame it plots and the two values its title is formatted from.
\<close>

record geo_fig =
  geo_data :: oframe
  geo_mineral :: string
  geo_k :: int

definition build_geo_fig :: "(string \<rightharpoonup> oframe) \<Rightarrow> string \<Rightarrow> int \<Rightarrow> py_error + geo_fig" where
  "build_geo_fig point_agg mineral k =
     (case point_agg ''Total'' of
        None \<Rightarrow> Inl (KeyError ''Total'')
      | Some total_point_agg \<Rightarrow>
          if list_ex (\<lambda>r. case average_monthly_concentration r of
                               None \<Rightarrow> False | Some a \<Rightarrow> a < 0)
               (body total_point_agg)
          then Inl ValueError
          else Inr \<lparr> geo_data = total_point_agg, geo_mineral = mineral, geo_k = k \<rparr>)"

text \<open>
  \<^verbatim>\<open>build_dot_fig\<close> renames two columns of each frame before plotting it. A scatter
  figure is kept as its title, the frame it plots and the range of its y axis.
\<close>

record dot_fig =
  fig_title :: string
  fig_data :: oframe
  yaxis_range :: "(real \<times> real) option"

definition rename_dot :: "oframe \<Rightarrow> oframe" where
  "rename_dot d =
     d\<lparr> labels := map (\<lambda>l. rename_label ''YearMonth'' ''Time''
                            (rename_label ''monthly concentration'' ''Detected Concentration'' l))
                      (labels d) \<rparr>"

text \<open>\<^verbatim>\<open>Series.min()\<close> and \<^verbatim>\<open>Series.max()\<close> skip nulls and are null on nothing.\<close>

definition min_skipna :: "real option list \<Rightarrow> real option" where
  "min_skipna vs = (case non_null vs of [] \<Rightarrow> None | x # xs \<Rightarrow> Some (fold min xs x))"

definition max_skipna :: "real option list \<Rightarrow> real option" where
  "max_skipna vs = (case non_null vs of [] \<Rightarrow> None | x # xs \<Rightarrow> Some (fold max xs x))"

definition one_dot_fig :: "string \<Rightarrow> oframe \<Rightarrow> dot_fig" where
  "one_dot_fig m d =
     (let ymin = min_skipna (map monthly_concentration (body d));
          ymax = max_skipna (map monthly_concentration (body d))
      in \<lparr> fig_title = ''Concentration of '' @ m,
           fig_data = d,
           yaxis_range =
             (case (ymin, ymax) of
                (Some lo, Some hi) \<Rightarrow>
                  (let pad = max 1 (if hi > lo then 0.05 * (hi - lo) else 1)
                   in Some (lo - pad, hi + pad))
              | _ \<Rightarrow> None) \<rparr>)"

text \<open>
  The loop of \<^verbatim>\<open>build_dot_fig\<close> in \<^verbatim>\<open>Top20DB.py\<close> (and \<^verbatim>\<open>DB.py\<close>): each frame \<open>d\<close> of
  the dictionary is renamed with \<^verbatim>\<open>inplace=True\<close>, so the dictionary holds the renamed
  frame afterwards; the loop returns the figures, or the \<^verbatim>\<open>KeyError\<close> of
  \<^verbatim>\<open>d["Detected Concentration"]\<close>, together with the dictionary as the loop leaves it.
\<close>

fun dot_loop :: "(string \<times> oframe) list \<Rightarrow> (py_error + dot_fig list) \<times> (string \<times> oframe) list" where
  "dot_loop [] = (Inr [], [])"
| "dot_loop ((m, d) # ma) =
     (let d' = rename_dot d
      in if ''Detected Concentration'' \<notin> set (labels d')
         then (Inl (KeyError ''Detected Concentration''), (m, d') # ma)
         else (case dot_loop ma of
                 (Inl e, ma') \<Rightarrow> (Inl e, (m, d') # ma')
               | (Inr figs, ma') \<Rightarrow> (Inr (one_dot_fig m d' # figs), (m, d') # ma')))"

text \<open>
  \<^verbatim>\<open>build_dot_fig(month_agg, mineral)\<close> of \<^verbatim>\<open>Top20DB.py\<close>, called on the module's
  \<^verbatim>\<open>BASE\<close>: its result, and \<^verbatim>\<open>BASE\<close> after the call.
\<close>

definition build_dot_fig_Top20DB ::
  "(string \<times> (string \<times> oframe) list) list \<Rightarrow> string
     \<Rightarrow> (py_error + dot_fig list) \<times> (string \<times> (string \<times> oframe) list) list" where
  "build_dot_fig_Top20DB month_agg mineral =
     (case map_of month_agg mineral of
        None \<Rightarrow> (Inl (KeyError mineral), month_agg)
      | Some ma \<Rightarrow>
          (case dot_loop ma of
             (res, ma') \<Rightarrow>
               (res, map (\<lambda>(name, sub). if name = mineral then (name, ma') else (name, sub))
                         month_agg)))"

text \<open>
  \<^verbatim>\<open>build_dot_fig\<close> of \<^verbatim>\<open>20DB.py\<close> renames \<^verbatim>\<open>df = d.copy()\<close>: the same figures, and
  the dictionary as it was.
\<close>

definition build_dot_fig_20DB ::
  "(string \<times> (string \<times> oframe) list) list \<Rightarrow> string
     \<Rightarrow> (py_error + dot_fig list) \<times> (string \<times> (string \<times> oframe) list) list" where
  "build_dot_fig_20DB month_agg mineral =
     (case map_of month_agg mineral of
        None \<Rightarrow> (Inl (KeyError mineral), month_agg)
      | Some ma \<Rightarrow> (fst (dot_loop ma), month_agg))"

section \<open>The notions the properties are stated in\<close>

text \<open>
  The value of metric \<open>m\<close> in a row of the original input of \<^verbatim>\<open>select_topk_pairs\<close>,
  where \<open>mm\<close> are the matched columns: the cell of column \<open>m\<close>, and for the synthetic
  \<^verbatim>\<open>Total\<close> (more than one matched column) the sum of the row's matched cells.
\<close>

definition metric_value :: "string list \<Rightarrow> string \<Rightarrow> row \<Rightarrow> real option" where
  "metric_value mm m r =
     (if length mm > 1 \<and> m = ''Total'' then sum_min_count1 (map (vals r) mm) else vals r m)"

text \<open>The non-null values of a group's rows in an input, for a value field \<open>val\<close>.\<close>

definition group_values :: "(row \<Rightarrow> real option) \<Rightarrow> row list \<Rightarrow> group_key \<Rightarrow> real list" where
  "group_values val rs g = non_null (map val (filter (\<lambda>r. key_of r = Some g) rs))"

text \<open>The mean of a group: null when the group has no non-null value.\<close>

definition group_mean :: "(row \<Rightarrow> real option) \<Rightarrow> row list \<Rightarrow> group_key \<Rightarrow> real option" where
  "group_mean val rs g =
     (if group_values val rs g = [] then None
      else Some (sum_list (group_values val rs g) / real (length (group_values val rs g))))"

text \<open>The same two notions with the float sum and the float mean.\<close>

definition metric_value_fl :: "float_ops \<Rightarrow> string list \<Rightarrow> string \<Rightarrow> row \<Rightarrow> real option" where
  "metric_value_fl fl mm m r =
     (if length mm > 1 \<and> m = ''Total'' then sum_min_count1_fl fl (map (vals r) mm)
      else vals r m)"

definition group_mean_fl ::
  "float_ops \<Rightarrow> (row \<Rightarrow> real option) \<Rightarrow> row list \<Rightarrow> group_key \<Rightarrow> real option" where
  "group_mean_fl fl val rs g =
     (if group_values val rs g = [] then None else Some (fmean fl (group_values val rs g)))"

text \<open>The float mean of the group a row belongs to.\<close>

definition row_group_mean_fl ::
  "float_ops \<Rightarrow> (row \<Rightarrow> real option) \<Rightarrow> row list \<Rightarrow> row \<Rightarrow> real option" where
  "row_group_mean_fl fl val rs r =
     (case key_of r of None \<Rightarrow> None | Some g \<Rightarrow> group_mean_fl fl val rs g)"

text \<open>The output row made of an input row's key and month, a value and an attached mean.\<close>

definition output_row :: "real option \<Rightarrow> real option \<Rightarrow> row \<Rightarrow> out_row" where
  "output_row v avg r =
     \<lparr> o_sampling_point = sampling_point r, o_lat = lat r, o_long = long r,
       o_type = sample_type r, o_year_month = year_month r,
       monthly_concentration = v,
       average_monthly_concentration = avg \<rparr>"

text \<open>Whether some of the columns \<open>mm\<close> has a non-null cell in a row.\<close>

definition has_value :: "string list \<Rightarrow> row \<Rightarrow> bool" where
  "has_value mm r = list_ex (\<lambda>c. vals r c \<noteq> None) mm"

text \<open>
  The \<^verbatim>\<open>Total\<close> of an input row as the specification words it: the sum of the row's
  non-null cells in the matched columns, and null when they are all null.
\<close>

definition spec_total :: "float_ops \<Rightarrow> string list \<Rightarrow> row \<Rightarrow> real option" where
  "spec_total fl mm r =
     (if has_value mm r then Some (fsum fl (non_null (map (vals r) mm))) else None)"

text \<open>The rows of an input whose group is one of \<open>S\<close>, in the input's order.\<close>

definition rows_of_groups :: "group_key set \<Rightarrow> row list \<Rightarrow> row list" where
  "rows_of_groups S rs =
     filter (\<lambda>r. case key_of r of None \<Rightarrow> False | Some g \<Rightarrow> g \<in> S) rs"

text \<open>The groups of an input, and those with at least one non-null value.\<close>

definition all_groups :: "row list \<Rightarrow> group_key set" where
  "all_groups rs = set (List.map_filter key_of rs)"

definition groups_with_mean :: "(row \<Rightarrow> real option) \<Rightarrow> row list \<Rightarrow> group_key set" where
  "groups_with_mean val rs = set (List.map_filter key_of (filter (\<lambda>r. val r \<noteq> None) rs))"

text \<open>The group keys present in an output frame.\<close>

definition group_keys_of :: "oframe \<Rightarrow> group_key set" where
  "group_keys_of f = set (List.map_filter out_key (body f))"

text \<open>The order of the ranking on means: a null mean ranks below every number.\<close>

definition mean_ge :: "real option \<Rightarrow> real option \<Rightarrow> bool" where
  "mean_ge a b =
     (case b of None \<Rightarrow> True | Some y \<Rightarrow> (case a of None \<Rightarrow> False | Some x \<Rightarrow> y \<le> x))"

section \<open>Example inputs\<close>

text \<open>A row of sample type \<^verbatim>\<open>W\<close>, given by its site, coordinates, month and non-null cells.\<close>

definition site_row :: "string \<Rightarrow> real \<Rightarrow> real \<Rightarrow> string \<Rightarrow> (string \<times> real) list \<Rightarrow> row" where
  "site_row s la lo ym cells =
     \<lparr> sampling_point = Some s, sample_type = Some ''W'', year_month = Some ym,
       lat = Some la, long = Some lo, vals = map_of cells \<rparr>"

definition out_labels :: "string list" where
  "out_labels = [''Sampling Point'', ''lat'', ''long'', ''Type'', ''YearMonth'',
                 ''monthly concentration'', ''average monthly concentration'']"

text \<open>
  A base table for \<^verbatim>\<open>DB.py\<close>: two magnesium columns and a calcium column; site \<^verbatim>\<open>A\<close> has
  a month without a \<^verbatim>\<open>Mg t\<close> reading, site \<^verbatim>\<open>C\<close> has no magnesium reading at all.
\<close>

definition ex_base :: frame where
  "ex_base =
     \<lparr> columns = [''Mg d'', ''Mg t'', ''Ca''],
       rows = [site_row ''A'' 1 2 ''2025-01'' [(''Mg d'', 4), (''Mg t'', 1)],
               site_row ''A'' 1 2 ''2025-02'' [(''Mg d'', 6)],
               site_row ''B'' 3 4 ''2025-01'' [(''Mg d'', 2), (''Mg t'', 3)],
               site_row ''C'' 5 6 ''2025-01'' [(''Ca'', 9)]] \<rparr>"

text \<open>
  A metric frame for \<^verbatim>\<open>get_top\<close> without an average column of its own; site \<^verbatim>\<open>C\<close>
  has a null value only.
\<close>

definition ex_df :: frame where
  "ex_df =
     \<lparr> columns = [''monthly concentration''],
       rows = [site_row ''A'' 1 2 ''2025-01'' [(''monthly concentration'', 2)],
               site_row ''A'' 1 2 ''2025-02'' [(''monthly concentration'', 4)],
               site_row ''B'' 3 4 ''2025-01'' [(''monthly concentration'', 1)],
               site_row ''C'' 5 6 ''2025-01'' []] \<rparr>"

text \<open>
  A metric frame that carries an \<^verbatim>\<open>average monthly concentration\<close> column of its own,
  whose cells are not the mean of the frame's values.
\<close>

definition stale_df :: frame where
  "stale_df =
     \<lparr> columns = [''monthly concentration'', ''average monthly concentration''],
       rows = [site_row ''A'' 1 2 ''2025-01''
                 [(''monthly concentration'', 2), (''average monthly concentration'', 2)],
               site_row ''A'' 1 2 ''2025-02''
                 [(''monthly concentration'', 4), (''average monthly concentration'', 2)]] \<rparr>"

text \<open>A base table with the columns of \<open>ex_base\<close> and no rows.\<close>

definition empty_base :: frame where
  "empty_base = \<lparr> columns = [''Mg d'', ''Mg t'', ''Ca''], rows = [] \<rparr>"

text \<open>
  Dtypes for the columns of \<open>empty_base\<close>: all float; \<^verbatim>\<open>Mg t\<close> of dtype \<^verbatim>\<open>object\<close>; and all
  \<^verbatim>\<open>object\<close>, as \<^verbatim>\<open>read_csv\<close> loads a file that has the header line only.
\<close>

definition float_columns :: "string \<Rightarrow> dtype" where
  "float_columns c = Float64"

definition object_Mg_t :: "string \<Rightarrow> dtype" where
  "object_Mg_t c = (if c = ''Mg t'' then Object else Float64)"

definition object_columns :: "string \<Rightarrow> dtype" where
  "object_columns c = Object"

text \<open>A metric frame whose own average column has the cells 10 and null.\<close>

definition mixed_avg_df :: frame where
  "mixed_avg_df =
     \<lparr> columns = [''monthly concentration'', ''average monthly concentration''],
       rows = [site_row ''A'' 1 2 ''2025-01''
                 [(''monthly concentration'', 2), (''average monthly concentration'', 10)],
               site_row ''A'' 1 2 ''2025-02'' [(''monthly concentration'', 4)]] \<rparr>"

text \<open>A metric frame whose own average column has a null cell.\<close>

definition null_avg_df :: frame where
  "null_avg_df =
     \<lparr> columns = [''monthly concentration'', ''average monthly concentration''],
       rows = [site_row ''A'' 1 2 ''2025-01'' [(''monthly concentration'', 2)]] \<rparr>"

text \<open>
  The module-level \<^verbatim>\<open>BASE\<close> of \<^verbatim>\<open>Top20DB.py\<close> and \<^verbatim>\<open>20DB.py\<close> for a pickle holding \<open>ex_df\<close>,
  with \<open>k = 1\<close>.
\<close>

definition ex_BASE :: "(string \<times> (string \<times> oframe) list) list" where
  "ex_BASE = get_top [(''Mg'', [(''Total'', ex_df)])] 1"

section \<open>Facts about the pandas operations\<close>

lemma fold_upd_apply:
  "fold (\<lambda>m out. out(m \<mapsto> f m)) ms out0 x = (if x \<in> set ms then Some (f x) else out0 x)"
  by (induction ms arbitrary: out0) auto

lemma set_filter_like: "set (filter_like like cols) \<subseteq> set cols"
  by (auto simp: filter_like_def)

lemma select_topk_pairs_apply:
  "select_topk_pairs base mineral k m =
     (if m \<in> set (metrics (filter_like mineral (columns base)))
      then Some (metric_frame (Filtered_Base (filter_like mineral (columns base)) (rows base)) m k)
      else None)"
  by (simp add: select_topk_pairs_def Let_def fold_upd_apply)

lemma set_map_filter: "set (List.map_filter f xs) = {y. \<exists>x \<in> set xs. f x = Some y}"
  by (induction xs) (auto simp: List.map_filter_simps split: option.splits)

lemma fst_groupby_mean: "map fst (groupby_mean m rs) = sort (remdups (List.map_filter key_of rs))"
  by (simp add: groupby_mean_def comp_def)

lemma keys_groupby_mean: "fst ` set (groupby_mean m rs) = {g. \<exists>r \<in> set rs. key_of r = Some g}"
proof -
  have "fst ` set (groupby_mean m rs) = set (map fst (groupby_mean m rs))" by simp
  also have "\<dots> = {g. \<exists>r \<in> set rs. key_of r = Some g}"
    by (simp only: fst_groupby_mean set_sort set_remdups set_map_filter)
  finally show ?thesis .
qed

lemma distinct_groupby_mean: "distinct (map fst (groupby_mean m rs))"
  by (simp add: fst_groupby_mean)

lemma groupby_mean_entry:
  "(g, mu) \<in> set (groupby_mean m rs) \<Longrightarrow> mu = mean_skipna (group_cells m rs g)"
  by (auto simp: groupby_mean_def)

lemma set_with_mean: "set (with_mean es) = {(g, x). (g, Some x) \<in> set es}"
  by (induction es rule: with_mean.induct) auto

lemma length_with_mean: "length (with_mean es) + length (filter (\<lambda>(g, mu). mu = None) es) = length es"
  by (induction es rule: with_mean.induct) auto

lemma set_ranking: "set (ranking es) = set es"
proof -
  have "(\<lambda>(g, x). (g, Some x)) ` set (with_mean es) = {e \<in> set es. snd e \<noteq> None}"
    by (force simp: set_with_mean)
  moreover have "set (filter (\<lambda>(g, mu). mu = None) es) = {e \<in> set es. snd e = None}"
    by auto
  ultimately show ?thesis
    by (auto simp: ranking_def)
qed

lemma length_ranking: "length (ranking es) = length es"
  using length_with_mean [of es] by (simp add: ranking_def)

lemma distinct_with_mean: "distinct (map fst es) \<Longrightarrow> distinct (map fst (with_mean es))"
proof (induction es rule: with_mean.induct)
  case (3 g x es)
  then show ?case by (force simp: set_with_mean)
qed auto

lemma distinct_ranking:
  assumes "distinct (map fst es)"
  shows "distinct (map fst (ranking es))"
proof -
  let ?s = "sort_key (\<lambda>(g, x). - x) (with_mean es)"
  have fst_eq: "map fst (map (\<lambda>(g, x). (g, Some x)) ?s) = map fst ?s"
    by (simp add: comp_def case_prod_unfold)
  have wm: "distinct (map fst (with_mean es))"
    using assms by (rule distinct_with_mean)
  then have "distinct (with_mean es)" "inj_on fst (set (with_mean es))"
    by (simp_all add: distinct_map)
  then have d1: "distinct (map fst ?s)"
    by (simp add: distinct_map)
  have d2: "distinct (map fst (filter (\<lambda>(g, mu). mu = None) es))"
    using assms by (simp add: distinct_map_filter)
  have disj: "set (map fst ?s) \<inter> set (map fst (filter (\<lambda>(g, mu). mu = None) es)) = {}"
  proof -
    have "False" if a: "g \<in> set (map fst ?s)"
      and b: "g \<in> set (map fst (filter (\<lambda>(g, mu). mu = None) es))" for g
    proof -
      from a obtain x where "(g, x) \<in> set (with_mean es)" by auto
      then have "(g, Some x) \<in> set es" by (simp add: set_with_mean)
      moreover from b have "(g, None) \<in> set es" by auto
      ultimately show False using assms
        by (metis eq_key_imp_eq_value option.distinct(1))
    qed
    then show ?thesis by blast
  qed
  show ?thesis
    unfolding ranking_def map_append distinct_append fst_eq
    using d1 d2 disj by simp
qed

lemma sorted_wrt_all: "(\<And>x y. x \<in> set xs \<Longrightarrow> y \<in> set xs \<Longrightarrow> R x y) \<Longrightarrow> sorted_wrt R xs"
  by (induction xs) auto

lemma sorted_ranking: "sorted_wrt (\<lambda>a b. mean_ge (snd a) (snd b)) (ranking es)"
proof -
  let ?s = "sort_key (\<lambda>(g, x). - x) (with_mean es)"
  have "sorted (map (\<lambda>(g, x). - x) ?s)" by (rule sorted_sort_key)
  then have "sorted_wrt (\<lambda>a b. - snd a \<le> - snd b) ?s"
    by (simp add: sorted_map case_prod_unfold)
  then have "sorted_wrt (\<lambda>a b. mean_ge (snd a) (snd b)) (map (\<lambda>(g, x). (g, Some x)) ?s)"
    by (simp add: sorted_wrt_map mean_ge_def case_prod_unfold)
  moreover have "sorted_wrt (\<lambda>a b. mean_ge (snd a) (snd b)) (filter (\<lambda>(g, mu). mu = None) es)"
    by (rule sorted_wrt_all) (auto simp: mean_ge_def)
  ultimately show ?thesis
    by (auto simp: ranking_def sorted_wrt_append mean_ge_def)
qed

lemma set_nlargest: "set (nlargest k es) \<subseteq> set es"
  using set_take_subset [of "nat k" "ranking es"] by (auto simp: nlargest_def set_ranking)

lemma length_nlargest: "length (nlargest k es) = min (nat k) (length es)"
  by (auto simp: nlargest_def length_ranking)

lemma distinct_nlargest: "distinct (map fst es) \<Longrightarrow> distinct (map fst (nlargest k es))"
  by (simp add: nlargest_def take_map [symmetric] distinct_take distinct_ranking)

lemma sorted_nlargest: "sorted_wrt (\<lambda>a b. mean_ge (snd a) (snd b)) (nlargest k es)"
  by (simp add: nlargest_def sorted_wrt_take sorted_ranking)

lemma nlargest_top:
  assumes a: "a \<in> set (nlargest k es)" and b: "b \<in> set es" and nb: "b \<notin> set (nlargest k es)"
  shows "mean_ge (snd a) (snd b)"
proof -
  from a have k: "\<not> k \<le> 0" by (auto simp: nlargest_def split: if_splits)
  then have nl: "nlargest k es = take (nat k) (ranking es)" by (simp add: nlargest_def)
  have "sorted_wrt (\<lambda>a b. mean_ge (snd a) (snd b)) (take (nat k) (ranking es) @ drop (nat k) (ranking es))"
    by (simp add: sorted_ranking)
  then have *: "\<forall>x \<in> set (take (nat k) (ranking es)). \<forall>y \<in> set (drop (nat k) (ranking es)).
      mean_ge (snd x) (snd y)"
    unfolding sorted_wrt_append by blast
  have "set (ranking es) = set (take (nat k) (ranking es)) \<union> set (drop (nat k) (ranking es))"
    by (metis append_take_drop_id set_append)
  with b nb nl have "b \<in> set (drop (nat k) (ranking es))"
    by (auto simp: set_ranking)
  with * a nl show ?thesis by auto
qed

lemma nlargest_has_all_means:
  assumes "int (length (with_mean es)) \<le> k" and "(g, Some x) \<in> set es"
  shows "(g, Some x) \<in> set (nlargest k es)"
proof -
  let ?A = "map (\<lambda>(g, x). (g, Some x)) (sort_key (\<lambda>(g, x). - x) (with_mean es))"
  from assms(2) have "(g, x) \<in> set (with_mean es)" by (simp add: set_with_mean)
  then have ne: "with_mean es \<noteq> []" and inA: "(g, Some x) \<in> set ?A" by force+
  from ne assms(1) have k: "\<not> k \<le> 0" by (cases "with_mean es") auto
  have "length ?A \<le> nat k" using assms(1) by simp
  then have "take (nat k) (ranking es) = ?A @ take (nat k - length ?A) (filter (\<lambda>(g, mu). mu = None) es)"
    by (simp add: ranking_def)
  with inA k show ?thesis by (simp add: nlargest_def)
qed

lemma nlargest_null_mean:
  assumes "(g, None) \<in> set (nlargest k es)"
  shows "int (length (with_mean es)) < k"
proof -
  let ?A = "map (\<lambda>(g, x). (g, Some x)) (sort_key (\<lambda>(g, x). - x) (with_mean es))"
  let ?B = "filter (\<lambda>(g, mu). mu = None) es"
  from assms have k: "\<not> k \<le> 0" by (auto simp: nlargest_def split: if_splits)
  with assms have "(g, None) \<in> set (take (nat k) ?A) \<union> set (take (nat k - length ?A) ?B)"
    by (simp add: nlargest_def ranking_def)
  moreover have "(g, None) \<notin> set (take (nat k) ?A)"
    using set_take_subset [of "nat k" ?A] by auto
  ultimately have "take (nat k - length ?A) ?B \<noteq> []" by auto
  then have "nat k - length ?A \<noteq> 0" by auto
  then show ?thesis by simp
qed

lemma out_key_out_row_of: "out_key (out_row_of m avg r) = key_of r"
  by (simp add: out_key_def out_row_of_def key_of_def split: option.splits)

lemma set_merge_inner:
  "set (merge_inner tk rs) = {r \<in> set rs. \<exists>g. key_of r = Some g \<and> g \<in> set tk}"
  by (auto simp: merge_inner_def split: option.splits)

lemma non_null_ne: "non_null (map v xs) \<noteq> [] \<longleftrightarrow> (\<exists>x \<in> set xs. v x \<noteq> None)"
proof (induction xs)
  case Nil
  show ?case by simp
next
  case (Cons a xs)
  then show ?case by (cases "v a") auto
qed

lemma non_null_filter:
  "non_null (map v (filter K (filter (\<lambda>r. v r \<noteq> None) rs))) = non_null (map v (filter K rs))"
proof (induction rs)
  case Nil
  show ?case by simp
next
  case (Cons a rs)
  then show ?case by (cases "v a") auto
qed

lemma sum_min_count1_ne: "sum_min_count1 (map v cs) \<noteq> None \<longleftrightarrow> list_ex (\<lambda>c. v c \<noteq> None) cs"
  using non_null_ne [of v cs] by (auto simp: sum_min_count1_def Let_def list_ex_iff)

lemma key_of_add_total: "key_of (add_total mm r) = key_of r"
  by (simp add: key_of_def add_total_def split: option.splits)

lemma vals_total_or_id:
  "vals ((if length mm > 1 then add_total mm else (\<lambda>r. r)) r) m = metric_value mm m r"
  by (simp add: add_total_def metric_value_def)

lemma key_of_total_or_id:
  "key_of ((if length mm > 1 then add_total mm else (\<lambda>r. r)) r) = key_of r"
  by (simp add: key_of_add_total)

lemma Filtered_Base_eq:
  "Filtered_Base mm rs =
     map (if length mm > 1 then add_total mm else (\<lambda>r. r))
         (filter (\<lambda>r. mm \<noteq> [] \<longrightarrow> list_ex (\<lambda>c. vals r c \<noteq> None) mm) rs)"
  by (simp add: Filtered_Base_def Let_def dropna_all_def)

lemma metric_value_kept:
  assumes "m \<in> set (metrics mm)" and "metric_value mm m r \<noteq> None"
  shows "list_ex (\<lambda>c. vals r c \<noteq> None) mm"
proof (cases "length mm > 1 \<and> m = ''Total''")
  case True
  with assms(2) have "sum_min_count1 (map (vals r) mm) \<noteq> None"
    by (simp add: metric_value_def)
  then show ?thesis by (simp only: sum_min_count1_ne)
next
  case False
  with assms have "m \<in> set mm" "vals r m \<noteq> None"
    by (auto simp: metrics_def metric_value_def split: if_splits)
  then show ?thesis by (auto simp: list_ex_iff)
qed

lemma dropna_single: "dropna_all [m] rs = filter (\<lambda>r. vals r m \<noteq> None) rs"
  by (simp only: dropna_all_def list_ex_iff list.set Bex_def singleton_iff simp_thms)

lemma dropna_Filtered_Base:
  assumes "m \<in> set (metrics mm)"
  shows "dropna_all [m] (Filtered_Base mm rs) =
     map (if length mm > 1 then add_total mm else (\<lambda>r. r))
         (filter (\<lambda>r. metric_value mm m r \<noteq> None) rs)"
proof -
  have "filter (\<lambda>r. metric_value mm m r \<noteq> None)
          (filter (\<lambda>r. mm \<noteq> [] \<longrightarrow> list_ex (\<lambda>c. vals r c \<noteq> None) mm) rs)
        = filter (\<lambda>r. metric_value mm m r \<noteq> None) rs"
    using metric_value_kept [OF assms] by (induction rs) auto
  then show ?thesis
    unfolding Filtered_Base_eq dropna_single filter_map comp_def vals_total_or_id
    by (rule arg_cong)
qed

lemma group_values_means_df:
  assumes "m \<in> set (metrics mm)"
  shows "non_null (group_cells m (dropna_all [m] (Filtered_Base mm rs)) g)
         = group_values (metric_value mm m) rs g"
proof -
  let ?u = "if length mm > 1 then add_total mm else (\<lambda>r. r)"
  have "group_cells m (map ?u (filter (\<lambda>r. metric_value mm m r \<noteq> None) rs)) g
        = map (metric_value mm m)
            (filter (\<lambda>r. key_of r = Some g) (filter (\<lambda>r. metric_value mm m r \<noteq> None) rs))"
    unfolding group_cells_def filter_map comp_def key_of_total_or_id map_map vals_total_or_id ..
  then show ?thesis
    unfolding dropna_Filtered_Base [OF assms] group_values_def
    by (simp only: non_null_filter)
qed

lemma keys_means_df:
  assumes "m \<in> set (metrics mm)"
  shows "fst ` set (means_df (Filtered_Base mm rs) m) = groups_with_mean (metric_value mm m) rs"
proof -
  let ?u = "if length mm > 1 then add_total mm else (\<lambda>r. r)"
  let ?xs = "filter (\<lambda>r. metric_value mm m r \<noteq> None) rs"
  have *: "List.map_filter key_of (map ?u xs) = List.map_filter key_of xs" for xs
    by (induction xs) (simp_all only: list.map List.map_filter_simps key_of_total_or_id)
  have "fst ` set (means_df (Filtered_Base mm rs) m) = set (List.map_filter key_of (map ?u ?xs))"
    unfolding means_df_def keys_groupby_mean dropna_Filtered_Base [OF assms]
    by (simp only: set_map_filter)
  then show ?thesis
    by (simp only: * groups_with_mean_def)
qed

lemma mean_skipna_eq:
  "mean_skipna vs = (if non_null vs = [] then None
                     else Some (sum_list (non_null vs) / real (length (non_null vs))))"
  by (simp add: mean_skipna_def Let_def)

lemma groups_with_mean_iff:
  "g \<in> groups_with_mean val rs \<longleftrightarrow> group_values val rs g \<noteq> []"
  by (auto simp: groups_with_mean_def group_values_def set_map_filter non_null_ne)

lemma means_df_entry:
  assumes m: "m \<in> set (metrics mm)" and e: "(g, mu) \<in> set (means_df (Filtered_Base mm rs) m)"
  shows "group_values (metric_value mm m) rs g \<noteq> [] \<and>
         mu = Some (sum_list (group_values (metric_value mm m) rs g)
                    / real (length (group_values (metric_value mm m) rs g)))"
proof -
  from e have "g \<in> fst ` set (means_df (Filtered_Base mm rs) m)" by force
  then have ne: "group_values (metric_value mm m) rs g \<noteq> []"
    by (simp add: keys_means_df [OF m] groups_with_mean_iff)
  from e have "mu = mean_skipna (group_cells m (dropna_all [m] (Filtered_Base mm rs)) g)"
    unfolding means_df_def by (rule groupby_mean_entry)
  with ne show ?thesis
    by (simp add: mean_skipna_eq group_values_means_df [OF m])
qed

lemma lookup_mean_entry:
  assumes "distinct (map fst means)" and "(g, mu) \<in> set means" and "key_of r = Some g"
  shows "lookup_mean means r = mu"
  using assms by (simp add: lookup_mean_def)

lemma top_keys_entry:
  "g \<in> set (top_keys k means) \<Longrightarrow> \<exists>mu. (g, mu) \<in> set (nlargest k means) \<and> (g, mu) \<in> set means"
proof -
  assume "g \<in> set (top_keys k means)"
  then obtain e where e: "e \<in> set (nlargest k means)" "fst e = g"
    unfolding top_keys_def by auto
  then have "(g, snd e) \<in> set (nlargest k means)" by (metis prod.collapse)
  with set_nlargest [of k means] show ?thesis by blast
qed

lemma body_metric_frame:
  "set (body (metric_frame FB m k)) =
     (\<lambda>r. out_row_of m (lookup_mean (means_df FB m) r) r) `
       {r \<in> set FB. \<exists>g. key_of r = Some g \<and> g \<in> set (top_keys k (means_df FB m))}"
  by (simp add: metric_frame_def merge_left_def set_merge_inner)

lemma distinct_means_df: "distinct (map fst (means_df FB m))"
  by (simp add: means_df_def distinct_groupby_mean)

lemma select_topk_pairs_SomeD:
  assumes "select_topk_pairs base mineral k m = Some f"
  shows "m \<in> set (metrics (filter_like mineral (columns base)))"
    and "f = metric_frame (Filtered_Base (filter_like mineral (columns base)) (rows base)) m k"
  using assms by (auto simp: select_topk_pairs_apply split: if_splits)

lemma metric_frame_row:
  assumes m: "m \<in> set (metrics mm)"
    and o: "out \<in> set (body (metric_frame (Filtered_Base mm rs) m k))"
  shows "\<exists>g mu. out_key out = Some g \<and> average_monthly_concentration out = mu
            \<and> (g, mu) \<in> set (nlargest k (means_df (Filtered_Base mm rs) m))
            \<and> (g, mu) \<in> set (means_df (Filtered_Base mm rs) m)"
proof -
  let ?FB = "Filtered_Base mm rs"
  from o obtain r g where r: "r \<in> set ?FB" "key_of r = Some g"
    "g \<in> set (top_keys k (means_df ?FB m))"
    and out: "out = out_row_of m (lookup_mean (means_df ?FB m) r) r"
    unfolding body_metric_frame by blast
  from top_keys_entry [OF r(3)] obtain mu where
    mu: "(g, mu) \<in> set (nlargest k (means_df ?FB m))" "(g, mu) \<in> set (means_df ?FB m)"
    by blast
  have "lookup_mean (means_df ?FB m) r = mu"
    using distinct_means_df mu(2) r(2) by (rule lookup_mean_entry)
  moreover have "out_key out = key_of r"
    unfolding out by (rule out_key_out_row_of)
  moreover have "average_monthly_concentration out = lookup_mean (means_df ?FB m) r"
    unfolding out by (simp add: out_row_of_def)
  ultimately show ?thesis using r(2) mu by metis
qed

lemma select_topk_pairs_mean:
  assumes "select_topk_pairs base mineral k m = Some f" and "out \<in> set (body f)"
  shows "\<exists>g. out_key out = Some g
       \<and> group_values (metric_value (filter_like mineral (columns base)) m) (rows base) g \<noteq> []
       \<and> average_monthly_concentration out =
           Some (sum_list (group_values (metric_value (filter_like mineral (columns base)) m) (rows base) g)
                 / real (length (group_values (metric_value (filter_like mineral (columns base)) m) (rows base) g)))"
proof -
  let ?mm = "filter_like mineral (columns base)"
  note sel = select_topk_pairs_SomeD [OF assms(1)]
  from assms(2) have "out \<in> set (body (metric_frame (Filtered_Base ?mm (rows base)) m k))"
    by (simp only: sel(2))
  from metric_frame_row [OF sel(1) this] obtain g mu where
    g: "out_key out = Some g" "average_monthly_concentration out = mu"
    and e: "(g, mu) \<in> set (means_df (Filtered_Base ?mm (rows base)) m)"
    by blast
  from means_df_entry [OF sel(1) e] g show ?thesis by auto
qed

lemma set_groupby_mean:
  "set (groupby_mean m rs) = (\<lambda>g. (g, mean_skipna (group_cells m rs g))) ` all_groups rs"
  by (simp add: groupby_mean_def all_groups_def)

lemma mean_skipna_group_cells:
  "mean_skipna (group_cells m rs g) = group_mean (\<lambda>r. vals r m) rs g"
  by (simp add: mean_skipna_eq group_mean_def group_values_def group_cells_def)

lemma groups_with_mean_subset: "groups_with_mean val rs \<subseteq> all_groups rs"
  by (auto simp: groups_with_mean_def all_groups_def set_map_filter)

lemma group_mean_None_iff: "group_mean val rs g = None \<longleftrightarrow> g \<notin> groups_with_mean val rs"
  by (simp add: group_mean_def groups_with_mean_iff)

lemma with_mean_groupby_iff:
  "(g, x) \<in> set (with_mean (groupby_mean m rs))
     \<longleftrightarrow> g \<in> all_groups rs \<and> group_mean (\<lambda>r. vals r m) rs g = Some x"
proof -
  have "(g, x) \<in> set (with_mean (groupby_mean m rs)) \<longleftrightarrow> (g, Some x) \<in> set (groupby_mean m rs)"
    by (simp add: set_with_mean)
  also have "\<dots> \<longleftrightarrow> g \<in> all_groups rs \<and> mean_skipna (group_cells m rs g) = Some x"
    unfolding set_groupby_mean by auto
  finally show ?thesis by (simp only: mean_skipna_group_cells)
qed

lemma keys_with_mean_groupby:
  "fst ` set (with_mean (groupby_mean m rs)) = groups_with_mean (\<lambda>r. vals r m) rs"
proof (rule set_eqI)
  fix g
  have "g \<in> fst ` set (with_mean (groupby_mean m rs))
          \<longleftrightarrow> (\<exists>x. (g, x) \<in> set (with_mean (groupby_mean m rs)))"
    by force
  also have "\<dots> \<longleftrightarrow> g \<in> all_groups rs \<and> group_mean (\<lambda>r. vals r m) rs g \<noteq> None"
    by (simp only: with_mean_groupby_iff ex_simps not_None_eq)
  also have "\<dots> \<longleftrightarrow> g \<in> groups_with_mean (\<lambda>r. vals r m) rs"
    using groups_with_mean_subset [of "\<lambda>r. vals r m" rs] by (auto simp: group_mean_None_iff)
  finally show "g \<in> fst ` set (with_mean (groupby_mean m rs))
          \<longleftrightarrow> g \<in> groups_with_mean (\<lambda>r. vals r m) rs" .
qed

lemma length_with_mean_groupby:
  "length (with_mean (groupby_mean m rs)) = card (groups_with_mean (\<lambda>r. vals r m) rs)"
proof -
  have "distinct (map fst (with_mean (groupby_mean m rs)))"
    by (rule distinct_with_mean) (rule distinct_groupby_mean)
  then have "card (set (map fst (with_mean (groupby_mean m rs)))) = length (with_mean (groupby_mean m rs))"
    by (simp only: distinct_card length_map)
  then show ?thesis by (simp only: set_map keys_with_mean_groupby)
qed

lemma body_get_top_frame:
  "AVG_COL \<notin> set (columns df) \<Longrightarrow>
   set (body (get_top_frame df k)) =
     (\<lambda>r. out_row_of VALUE_COL (lookup_mean (groupby_mean VALUE_COL (rows df)) r) r) `
       {r \<in> set (rows df). \<exists>g. key_of r = Some g
           \<and> g \<in> set (top_keys k (groupby_mean VALUE_COL (rows df)))}"
  by (simp add: get_top_frame_def Let_def merge_left_def set_merge_inner)

lemma get_top_frame_row:
  assumes "AVG_COL \<notin> set (columns df)" and o: "out \<in> set (body (get_top_frame df k))"
  shows "\<exists>g mu. out_key out = Some g \<and> average_monthly_concentration out = mu
            \<and> (g, mu) \<in> set (nlargest k (groupby_mean VALUE_COL (rows df)))
            \<and> (g, mu) \<in> set (groupby_mean VALUE_COL (rows df))"
proof -
  let ?means = "groupby_mean VALUE_COL (rows df)"
  from o obtain r g where r: "r \<in> set (rows df)" "key_of r = Some g"
    "g \<in> set (top_keys k ?means)"
    and out: "out = out_row_of VALUE_COL (lookup_mean ?means r) r"
    unfolding body_get_top_frame [OF assms(1)] by blast
  from top_keys_entry [OF r(3)] obtain mu where
    mu: "(g, mu) \<in> set (nlargest k ?means)" "(g, mu) \<in> set ?means"
    by blast
  have "lookup_mean ?means r = mu"
    using distinct_groupby_mean mu(2) r(2) by (rule lookup_mean_entry)
  moreover have "out_key out = key_of r"
    unfolding out by (rule out_key_out_row_of)
  moreover have "average_monthly_concentration out = lookup_mean ?means r"
    unfolding out by (simp add: out_row_of_def)
  ultimately show ?thesis using r(2) mu by metis
qed

lemma get_top_frame_mean:
  assumes "AVG_COL \<notin> set (columns df)" and "out \<in> set (body (get_top_frame df k))"
  shows "\<exists>g. out_key out = Some g
       \<and> average_monthly_concentration out = group_mean (\<lambda>r. vals r VALUE_COL) (rows df) g
       \<and> (g \<in> groups_with_mean (\<lambda>r. vals r VALUE_COL) (rows df)
           \<or> int (card (groups_with_mean (\<lambda>r. vals r VALUE_COL) (rows df))) < k)"
proof -
  let ?means = "groupby_mean VALUE_COL (rows df)"
  let ?val = "\<lambda>r. vals r VALUE_COL"
  from get_top_frame_row [OF assms] obtain g mu where
    g: "out_key out = Some g" "average_monthly_concentration out = mu"
    and n: "(g, mu) \<in> set (nlargest k ?means)" and e: "(g, mu) \<in> set ?means"
    by blast
  have mu: "mu = group_mean ?val (rows df) g"
    using groupby_mean_entry [OF e] by (simp only: mean_skipna_group_cells)
  have "int (card (groups_with_mean ?val (rows df))) < k" if "g \<notin> groups_with_mean ?val (rows df)"
  proof -
    from that mu have "mu = None" by (simp add: group_mean_None_iff)
    with n have "int (length (with_mean ?means)) < k" by (simp add: nlargest_null_mean)
    then show ?thesis by (simp add: length_with_mean_groupby)
  qed
  with g mu show ?thesis by blast
qed

lemma top_keys_subset: "set (top_keys k means) \<subseteq> fst ` set means"
  using set_nlargest [of k means] by (auto simp: top_keys_def)

lemma group_keys_of_image:
  "group_keys_of \<lparr> labels = ls, body = map (\<lambda>r. out_row_of m (avg r) r) rs \<rparr>
     = {g. \<exists>r \<in> set rs. key_of r = Some g}"
  by (auto simp: group_keys_of_def set_map_filter out_key_out_row_of)

lemma keys_merge_inner:
  assumes "set tk \<subseteq> {g. \<exists>r \<in> set rs. key_of r = Some g}"
  shows "{g. \<exists>r \<in> set (merge_inner tk rs). key_of r = Some g} = set tk"
proof (rule set_eqI)
  fix g
  show "g \<in> {g. \<exists>r \<in> set (merge_inner tk rs). key_of r = Some g} \<longleftrightarrow> g \<in> set tk"
  proof
    assume "g \<in> {g. \<exists>r \<in> set (merge_inner tk rs). key_of r = Some g}"
    then obtain r where "r \<in> set (merge_inner tk rs)" and "key_of r = Some g"
      by (elim CollectE bexE)
    then show "g \<in> set tk"
      by (simp add: merge_inner_def)
  next
    assume g: "g \<in> set tk"
    with assms have "g \<in> {g. \<exists>r \<in> set rs. key_of r = Some g}"
      by (rule_tac subsetD)
    then obtain r where r: "r \<in> set rs" "key_of r = Some g"
      by (elim CollectE bexE)
    with g have "r \<in> set (merge_inner tk rs)"
      by (simp add: merge_inner_def)
    with r(2) show "g \<in> {g. \<exists>r \<in> set (merge_inner tk rs). key_of r = Some g}"
      by (intro CollectI bexI)
  qed
qed

lemma set_dropna_all: "set (dropna_all cs rs) \<subseteq> set rs"
  by (auto simp: dropna_all_def)

lemma group_keys_metric_frame:
  "group_keys_of (metric_frame FB m k) = set (top_keys k (means_df FB m))"
proof -
  have "set (top_keys k (means_df FB m)) \<subseteq> {g. \<exists>r \<in> set FB. key_of r = Some g}"
    using top_keys_subset [of k "means_df FB m"] set_dropna_all [of "[m]" FB]
    unfolding means_df_def keys_groupby_mean by blast
  then show ?thesis
    unfolding metric_frame_def merge_left_def group_keys_of_image
    by (rule keys_merge_inner)
qed

lemma group_keys_get_top_frame:
  "group_keys_of (get_top_frame df k) = set (top_keys k (groupby_mean VALUE_COL (rows df)))"
proof -
  have *: "set (top_keys k (groupby_mean VALUE_COL (rows df)))
             \<subseteq> {g. \<exists>r \<in> set (rows df). key_of r = Some g}"
    using top_keys_subset [of k "groupby_mean VALUE_COL (rows df)"]
    unfolding keys_groupby_mean .
  show ?thesis
  proof (cases "AVG_COL \<in> set (columns df)")
    case True
    then show ?thesis
      unfolding get_top_frame_def Let_def
      by (simp only: if_True group_keys_of_image keys_merge_inner [OF *])
  next
    case False
    then show ?thesis
      unfolding get_top_frame_def Let_def merge_left_def
      by (simp only: if_False group_keys_of_image keys_merge_inner [OF *])
  qed
qed

lemma length_means_df:
  assumes "m \<in> set (metrics mm)"
  shows "length (means_df (Filtered_Base mm rs) m) = card (groups_with_mean (metric_value mm m) rs)"
proof -
  have "card (set (map fst (means_df (Filtered_Base mm rs) m)))
          = length (map fst (means_df (Filtered_Base mm rs) m))"
    by (rule distinct_card) (rule distinct_means_df)
  then show ?thesis
    by (simp only: set_map length_map keys_means_df [OF assms])
qed

lemma length_top_keys: "length (top_keys k means) = min (nat k) (length means)"
  by (simp add: top_keys_def length_nlargest)

lemma distinct_top_keys: "distinct (map fst means) \<Longrightarrow> distinct (top_keys k means)"
  unfolding top_keys_def by (rule distinct_nlargest)

lemma card_top_keys:
  "distinct (map fst means) \<Longrightarrow> card (set (top_keys k means)) = min (nat k) (length means)"
  by (simp add: distinct_card distinct_top_keys length_top_keys)

lemma nlargest_all: "int (length es) \<le> k \<Longrightarrow> set (nlargest k es) = set es"
proof (cases "es = []")
  case True
  then show ?thesis by (simp add: nlargest_def ranking_def)
next
  case False
  assume "int (length es) \<le> k"
  with False have "\<not> k \<le> 0" "length (ranking es) \<le> nat k"
    by (cases es, simp_all add: length_ranking)
  then show ?thesis by (simp add: nlargest_def set_ranking)
qed

lemma top_keys_all: "int (length es) \<le> k \<Longrightarrow> set (top_keys k es) = fst ` set es"
  by (simp add: top_keys_def nlargest_all)

lemma top_keys_top:
  assumes d: "distinct (map fst es)"
    and a: "(g, mu) \<in> set es" "g \<in> set (top_keys k es)"
    and b: "(g', mu') \<in> set es" "g' \<notin> set (top_keys k es)"
  shows "mean_ge mu mu'"
proof -
  from top_keys_entry [OF a(2)] obtain nu where nu: "(g, nu) \<in> set (nlargest k es)" "(g, nu) \<in> set es"
    by blast
  with d a(1) have "nu = mu" by (rule_tac eq_key_imp_eq_value [of es g nu mu]) simp_all
  with nu have 1: "(g, mu) \<in> set (nlargest k es)" by simp
  from b(2) have 2: "(g', mu') \<notin> set (nlargest k es)"
    unfolding top_keys_def by force
  from nlargest_top [OF 1 b(1) 2] show ?thesis by simp
qed

lemma sorted_top_keys:
  assumes "\<And>e. e \<in> set es \<Longrightarrow> snd e = gm (fst e)"
  shows "sorted_wrt (\<lambda>a b. mean_ge (gm a) (gm b)) (top_keys k es)"
proof -
  have "sorted_wrt (\<lambda>a b. mean_ge (gm (fst a)) (gm (fst b))) (nlargest k es)"
  proof (rule sorted_wrt_mono_rel [OF _ sorted_nlargest])
    fix a b assume a: "a \<in> set (nlargest k es)" and b: "b \<in> set (nlargest k es)"
      and ge: "mean_ge (snd a) (snd b)"
    from a b set_nlargest [of k es] have "a \<in> set es" "b \<in> set es" by blast+
    then have "snd a = gm (fst a)" "snd b = gm (fst b)" by (simp_all only: assms)
    with ge show "mean_ge (gm (fst a)) (gm (fst b))" by simp
  qed
  then show ?thesis by (simp add: top_keys_def sorted_wrt_map)
qed

section \<open>Facts about the two functions with float64 arithmetic\<close>

lemma merge_inner_rows_of_groups: "merge_inner tk rs = rows_of_groups (set tk) rs"
  by (simp add: merge_inner_def rows_of_groups_def)

text \<open>With the arithmetic without rounding, the two functions are the ones defined first.\<close>

lemma select_topk_pairs_exact: "select_topk_pairs_fl exact_ops base mineral k = select_topk_pairs base mineral k"
proof -
  have ms: "mean_skipna_fl exact_ops = mean_skipna"
    by (rule ext) (simp add: mean_skipna_fl_def mean_skipna_def exact_ops_def Let_def)
  have sm: "sum_min_count1_fl exact_ops = sum_min_count1"
    by (rule ext) (simp add: sum_min_count1_fl_def sum_min_count1_def exact_ops_def Let_def)
  have gm: "groupby_mean_fl exact_ops = groupby_mean"
    by (intro ext) (simp add: groupby_mean_fl_def groupby_mean_def ms)
  have at: "add_total_fl exact_ops = add_total"
    by (intro ext) (simp add: add_total_fl_def add_total_def sm)
  have fb: "Filtered_Base_fl exact_ops = Filtered_Base"
    by (intro ext) (simp add: Filtered_Base_fl_def Filtered_Base_def at Let_def)
  have md: "means_df_fl exact_ops = means_df"
    by (intro ext) (simp add: means_df_fl_def means_df_def gm)
  have mf: "metric_frame_fl exact_ops = metric_frame"
    by (intro ext) (simp add: metric_frame_fl_def metric_frame_def md)
  show ?thesis
    by (simp add: select_topk_pairs_fl_def select_topk_pairs_def fb mf Let_def)
qed

lemma get_top_frame_exact: "get_top_frame_fl exact_ops df k = get_top_frame df k"
proof -
  have ms: "mean_skipna_fl exact_ops = mean_skipna"
    by (rule ext) (simp add: mean_skipna_fl_def mean_skipna_def exact_ops_def Let_def)
  have gm: "groupby_mean_fl exact_ops = groupby_mean"
    by (intro ext) (simp add: groupby_mean_fl_def groupby_mean_def ms)
  show ?thesis
    by (simp add: get_top_frame_fl_def get_top_frame_def gm Let_def)
qed

lemma select_topk_pairs_fl_apply:
  "select_topk_pairs_fl fl base mineral k m =
     (if m \<in> set (metrics (filter_like mineral (columns base)))
      then Some (metric_frame_fl fl
                   (Filtered_Base_fl fl (filter_like mineral (columns base)) (rows base)) m k)
      else None)"
  by (simp add: select_topk_pairs_fl_def Let_def fold_upd_apply)

lemma select_topk_pairs_fl_SomeD:
  assumes "select_topk_pairs_fl fl base mineral k m = Some f"
  shows "m \<in> set (metrics (filter_like mineral (columns base)))"
    and "f = metric_frame_fl fl
               (Filtered_Base_fl fl (filter_like mineral (columns base)) (rows base)) m k"
  using assms by (auto simp: select_topk_pairs_fl_apply split: if_splits)

lemma fst_groupby_mean_fl:
  "map fst (groupby_mean_fl fl m rs) = sort (remdups (List.map_filter key_of rs))"
  by (simp add: groupby_mean_fl_def comp_def)

lemma keys_groupby_mean_fl: "fst ` set (groupby_mean_fl fl m rs) = all_groups rs"
proof -
  have "fst ` set (groupby_mean_fl fl m rs) = set (map fst (groupby_mean_fl fl m rs))" by simp
  also have "\<dots> = all_groups rs"
    by (simp only: fst_groupby_mean_fl set_sort set_remdups all_groups_def)
  finally show ?thesis .
qed

lemma distinct_groupby_mean_fl: "distinct (map fst (groupby_mean_fl fl m rs))"
  by (simp add: fst_groupby_mean_fl)

lemma length_groupby_mean_fl: "length (groupby_mean_fl fl m rs) = card (all_groups rs)"
proof -
  have "card (set (map fst (groupby_mean_fl fl m rs))) = length (map fst (groupby_mean_fl fl m rs))"
    by (rule distinct_card) (rule distinct_groupby_mean_fl)
  then show ?thesis
    by (simp only: set_map length_map keys_groupby_mean_fl)
qed

lemma mean_skipna_fl_group_cells:
  "mean_skipna_fl fl (group_cells m rs g) = group_mean_fl fl (\<lambda>r. vals r m) rs g"
  by (simp add: mean_skipna_fl_def Let_def group_mean_fl_def group_values_def group_cells_def)

lemma groupby_mean_fl_snd:
  assumes "e \<in> set (groupby_mean_fl fl m rs)"
  shows "snd e = group_mean_fl fl (\<lambda>r. vals r m) rs (fst e)"
  using assms by (auto simp: groupby_mean_fl_def mean_skipna_fl_group_cells)

lemma sum_min_count1_fl_ne:
  "sum_min_count1_fl fl (map v cs) \<noteq> None \<longleftrightarrow> list_ex (\<lambda>c. v c \<noteq> None) cs"
  using non_null_ne [of v cs] by (auto simp: sum_min_count1_fl_def Let_def list_ex_iff)

lemma key_of_total_or_id_fl:
  "key_of ((if length mm > 1 then add_total_fl fl mm else (\<lambda>r. r)) r) = key_of r"
  by (simp add: key_of_def add_total_fl_def split: option.splits)

lemma vals_total_or_id_fl:
  "vals ((if length mm > 1 then add_total_fl fl mm else (\<lambda>r. r)) r) m = metric_value_fl fl mm m r"
  by (simp add: add_total_fl_def metric_value_fl_def)

lemma Filtered_Base_fl_eq:
  "Filtered_Base_fl fl mm rs =
     map (if length mm > 1 then add_total_fl fl mm else (\<lambda>r. r))
         (filter (\<lambda>r. mm \<noteq> [] \<longrightarrow> has_value mm r) rs)"
  by (simp add: Filtered_Base_fl_def Let_def dropna_all_def has_value_def)

lemma metrics_nonempty: "m \<in> set (metrics mm) \<Longrightarrow> mm \<noteq> []"
  by (auto simp: metrics_def)

lemma Filtered_Base_fl_metric:
  assumes "m \<in> set (metrics mm)"
  shows "Filtered_Base_fl fl mm rs =
     map (if length mm > 1 then add_total_fl fl mm else (\<lambda>r. r)) (filter (has_value mm) rs)"
  using metrics_nonempty [OF assms] by (simp add: Filtered_Base_fl_eq)

lemma metric_value_fl_kept:
  assumes "m \<in> set (metrics mm)" and "metric_value_fl fl mm m r \<noteq> None"
  shows "has_value mm r"
proof (cases "length mm > 1 \<and> m = ''Total''")
  case True
  with assms(2) have "sum_min_count1_fl fl (map (vals r) mm) \<noteq> None"
    by (simp add: metric_value_fl_def)
  then show ?thesis by (simp only: sum_min_count1_fl_ne has_value_def)
next
  case False
  with assms have "m \<in> set mm" "vals r m \<noteq> None"
    by (auto simp: metrics_def metric_value_fl_def split: if_splits)
  then show ?thesis by (auto simp: list_ex_iff has_value_def)
qed

lemma dropna_Filtered_Base_fl:
  assumes "m \<in> set (metrics mm)"
  shows "dropna_all [m] (Filtered_Base_fl fl mm rs) =
     map (if length mm > 1 then add_total_fl fl mm else (\<lambda>r. r))
         (filter (\<lambda>r. metric_value_fl fl mm m r \<noteq> None) rs)"
proof -
  have "filter (\<lambda>r. metric_value_fl fl mm m r \<noteq> None) (filter (has_value mm) rs)
        = filter (\<lambda>r. metric_value_fl fl mm m r \<noteq> None) rs"
    using metric_value_fl_kept [OF assms] by (induction rs) auto
  then show ?thesis
    unfolding Filtered_Base_fl_metric [OF assms] dropna_single filter_map comp_def
      vals_total_or_id_fl
    by (rule arg_cong)
qed

lemma group_values_means_df_fl:
  assumes "m \<in> set (metrics mm)"
  shows "group_values (\<lambda>r. vals r m) (dropna_all [m] (Filtered_Base_fl fl mm rs)) g
         = group_values (metric_value_fl fl mm m) rs g"
proof -
  let ?u = "if length mm > 1 then add_total_fl fl mm else (\<lambda>r. r)"
  have "map (\<lambda>r. vals r m)
          (filter (\<lambda>r. key_of r = Some g)
             (map ?u (filter (\<lambda>r. metric_value_fl fl mm m r \<noteq> None) rs)))
        = map (metric_value_fl fl mm m)
            (filter (\<lambda>r. key_of r = Some g)
               (filter (\<lambda>r. metric_value_fl fl mm m r \<noteq> None) rs))"
    unfolding filter_map comp_def key_of_total_or_id_fl map_map vals_total_or_id_fl ..
  then show ?thesis
    unfolding dropna_Filtered_Base_fl [OF assms] group_values_def
    by (simp only: non_null_filter)
qed

lemma all_groups_means_df_fl:
  assumes "m \<in> set (metrics mm)"
  shows "all_groups (dropna_all [m] (Filtered_Base_fl fl mm rs))
           = groups_with_mean (metric_value_fl fl mm m) rs"
proof -
  let ?u = "if length mm > 1 then add_total_fl fl mm else (\<lambda>r. r)"
  have *: "List.map_filter key_of (map ?u xs) = List.map_filter key_of xs" for xs
    by (induction xs) (simp_all only: list.map List.map_filter_simps key_of_total_or_id_fl)
  show ?thesis
    unfolding all_groups_def dropna_Filtered_Base_fl [OF assms]
    by (simp only: * groups_with_mean_def)
qed

lemma keys_means_df_fl:
  assumes "m \<in> set (metrics mm)"
  shows "fst ` set (means_df_fl fl (Filtered_Base_fl fl mm rs) m)
           = groups_with_mean (metric_value_fl fl mm m) rs"
  unfolding means_df_fl_def keys_groupby_mean_fl by (rule all_groups_means_df_fl [OF assms])

lemma distinct_means_df_fl: "distinct (map fst (means_df_fl fl FB m))"
  by (simp add: means_df_fl_def distinct_groupby_mean_fl)

lemma length_means_df_fl:
  assumes "m \<in> set (metrics mm)"
  shows "length (means_df_fl fl (Filtered_Base_fl fl mm rs) m)
           = card (groups_with_mean (metric_value_fl fl mm m) rs)"
  unfolding means_df_fl_def length_groupby_mean_fl by (simp only: all_groups_means_df_fl [OF assms])

lemma group_mean_fl_cong:
  "group_values val rs g = group_values val' rs' g \<Longrightarrow>
   group_mean_fl fl val rs g = group_mean_fl fl val' rs' g"
  by (simp add: group_mean_fl_def)

lemma means_df_fl_snd:
  assumes "m \<in> set (metrics mm)" and "e \<in> set (means_df_fl fl (Filtered_Base_fl fl mm rs) m)"
  shows "snd e = group_mean_fl fl (metric_value_fl fl mm m) rs (fst e)"
proof -
  from assms(2) have "snd e = group_mean_fl fl (\<lambda>r. vals r m)
                                 (dropna_all [m] (Filtered_Base_fl fl mm rs)) (fst e)"
    unfolding means_df_fl_def by (rule groupby_mean_fl_snd)
  also have "\<dots> = group_mean_fl fl (metric_value_fl fl mm m) rs (fst e)"
    by (rule group_mean_fl_cong) (rule group_values_means_df_fl [OF assms(1)])
  finally show ?thesis .
qed

lemma merge_inner_map:
  assumes "\<And>r. key_of (u r) = key_of r"
  shows "merge_inner tk (map u xs) = map u (merge_inner tk xs)"
  by (simp add: merge_inner_def filter_map comp_def assms)

lemma lookup_mean_key: "key_of r' = key_of r \<Longrightarrow> lookup_mean means r' = lookup_mean means r"
  by (simp add: lookup_mean_def)

lemma lookup_mean_selected:
  assumes d: "distinct (map fst means)"
    and gm: "\<And>e. e \<in> set means \<Longrightarrow> snd e = group_mean_fl fl val rs (fst e)"
    and r: "r \<in> set (merge_inner (top_keys k means) xs)"
  shows "lookup_mean means r = row_group_mean_fl fl val rs r"
proof -
  from r obtain g where g: "key_of r = Some g" "g \<in> set (top_keys k means)"
    unfolding set_merge_inner by blast
  from top_keys_entry [OF g(2)] obtain mu where mu: "(g, mu) \<in> set means" by blast
  from gm [OF mu] have "mu = group_mean_fl fl val rs g" by simp
  moreover have "lookup_mean means r = mu"
    using d mu g(1) by (rule lookup_mean_entry)
  ultimately show ?thesis by (simp add: row_group_mean_fl_def g(1))
qed

lemma out_row_of_output_row: "out_row_of m avg r = output_row (vals r m) avg r"
  by (simp add: out_row_of_def output_row_def)

lemma output_row_total_or_id_fl:
  "output_row v avg ((if length mm > 1 then add_total_fl fl mm else (\<lambda>r. r)) r) = output_row v avg r"
  by (simp add: output_row_def add_total_fl_def)

lemma out_key_output_row: "out_key (output_row v avg r) = key_of r"
  by (simp add: out_key_def output_row_def key_of_def split: option.splits)

lemma keys_output_rows:
  "set (List.map_filter out_key (map (\<lambda>r. output_row (v r) (avg r) r) rs)) = all_groups rs"
  by (auto simp: all_groups_def set_map_filter out_key_output_row)

lemma all_groups_merge_inner:
  assumes "set tk \<subseteq> all_groups rs"
  shows "all_groups (merge_inner tk rs) = set tk"
  using keys_merge_inner [of tk rs] assms
  by (simp only: all_groups_def set_map_filter)

lemma body_metric_frame_fl:
  assumes m: "m \<in> set (metrics mm)"
  shows "body (metric_frame_fl fl (Filtered_Base_fl fl mm rs) m k)
       = map (\<lambda>r. output_row (metric_value_fl fl mm m r)
                    (row_group_mean_fl fl (metric_value_fl fl mm m) rs r) r)
           (merge_inner (top_keys k (means_df_fl fl (Filtered_Base_fl fl mm rs) m))
              (filter (has_value mm) rs))"
proof -
  let ?u = "if length mm > 1 then add_total_fl fl mm else (\<lambda>r. r)"
  let ?means = "means_df_fl fl (Filtered_Base_fl fl mm rs) m"
  let ?keep = "merge_inner (top_keys k ?means) (filter (has_value mm) rs)"
  have "body (metric_frame_fl fl (Filtered_Base_fl fl mm rs) m k)
      = map (\<lambda>r. out_row_of m (lookup_mean ?means r) r) (map ?u ?keep)"
    unfolding metric_frame_fl_def merge_left_def oframe.simps
    by (subst (3) Filtered_Base_fl_metric [OF m])
       (simp only: merge_inner_map [of ?u, OF key_of_total_or_id_fl])
  also have "\<dots> = map (\<lambda>r. output_row (metric_value_fl fl mm m r) (lookup_mean ?means r) r) ?keep"
    unfolding map_map comp_def out_row_of_output_row vals_total_or_id_fl
      output_row_total_or_id_fl lookup_mean_key [OF key_of_total_or_id_fl] ..
  also have "\<dots> = map (\<lambda>r. output_row (metric_value_fl fl mm m r)
                    (row_group_mean_fl fl (metric_value_fl fl mm m) rs r) r) ?keep"
  proof (rule map_cong [OF refl])
    fix r assume "r \<in> set ?keep"
    with distinct_means_df_fl means_df_fl_snd [OF m]
    have "lookup_mean ?means r = row_group_mean_fl fl (metric_value_fl fl mm m) rs r"
      by (rule lookup_mean_selected)
    then show "output_row (metric_value_fl fl mm m r) (lookup_mean ?means r) r
        = output_row (metric_value_fl fl mm m r)
            (row_group_mean_fl fl (metric_value_fl fl mm m) rs r) r"
      by simp
  qed
  finally show ?thesis .
qed

lemma groups_with_mean_has_value:
  assumes "m \<in> set (metrics mm)"
  shows "groups_with_mean (metric_value_fl fl mm m) rs \<subseteq> all_groups (filter (has_value mm) rs)"
proof
  fix g assume "g \<in> groups_with_mean (metric_value_fl fl mm m) rs"
  then obtain r where r: "r \<in> set rs" "metric_value_fl fl mm m r \<noteq> None" "key_of r = Some g"
    unfolding groups_with_mean_def set_map_filter by auto
  from metric_value_fl_kept [OF assms r(2)] r(1) have "r \<in> set (filter (has_value mm) rs)"
    by simp
  with r(3) show "g \<in> all_groups (filter (has_value mm) rs)"
    unfolding all_groups_def set_map_filter by blast
qed

lemma group_keys_metric_frame_fl:
  assumes m: "m \<in> set (metrics mm)"
  shows "group_keys_of (metric_frame_fl fl (Filtered_Base_fl fl mm rs) m k)
           = set (top_keys k (means_df_fl fl (Filtered_Base_fl fl mm rs) m))"
proof -
  let ?means = "means_df_fl fl (Filtered_Base_fl fl mm rs) m"
  have sub: "set (top_keys k ?means) \<subseteq> all_groups (filter (has_value mm) rs)"
    using top_keys_subset [of k ?means] groups_with_mean_has_value [OF m, of fl rs]
    unfolding keys_means_df_fl [OF m] by (rule subset_trans)
  show ?thesis
    unfolding group_keys_of_def body_metric_frame_fl [OF m]
    by (simp only: keys_output_rows all_groups_merge_inner [OF sub])
qed

lemma select_topk_pairs_fl_keys:
  assumes "select_topk_pairs_fl fl base mineral k m = Some f"
  shows "group_keys_of f =
           set (top_keys k (means_df_fl fl
                  (Filtered_Base_fl fl (filter_like mineral (columns base)) (rows base)) m))"
  by (simp only: select_topk_pairs_fl_SomeD(2) [OF assms]
        group_keys_metric_frame_fl [OF select_topk_pairs_fl_SomeD(1) [OF assms]])

lemma select_topk_pairs_fl_body:
  assumes "select_topk_pairs_fl fl base mineral k m = Some f"
  shows "body f
       = map (\<lambda>r. output_row (metric_value_fl fl (filter_like mineral (columns base)) m r)
                    (row_group_mean_fl fl (metric_value_fl fl (filter_like mineral (columns base)) m)
                       (rows base) r) r)
           (rows_of_groups (group_keys_of f)
              (filter (has_value (filter_like mineral (columns base))) (rows base)))"
  unfolding select_topk_pairs_fl_keys [OF assms] merge_inner_rows_of_groups [symmetric]
  unfolding select_topk_pairs_fl_SomeD(2) [OF assms]
  by (rule body_metric_frame_fl [OF select_topk_pairs_fl_SomeD(1) [OF assms]])

lemma select_topk_pairs_fl_card:
  assumes "select_topk_pairs_fl fl base mineral k m = Some f"
  shows "card (group_keys_of f)
       = min (nat k) (card (groups_with_mean
                              (metric_value_fl fl (filter_like mineral (columns base)) m) (rows base)))"
  by (simp only: select_topk_pairs_fl_keys [OF assms] card_top_keys [OF distinct_means_df_fl]
        length_means_df_fl [OF select_topk_pairs_fl_SomeD(1) [OF assms]])

lemma select_topk_pairs_fl_subset:
  assumes "select_topk_pairs_fl fl base mineral k m = Some f"
  shows "group_keys_of f
       \<subseteq> groups_with_mean (metric_value_fl fl (filter_like mineral (columns base)) m) (rows base)"
  using top_keys_subset [of k "means_df_fl fl
                  (Filtered_Base_fl fl (filter_like mineral (columns base)) (rows base)) m"]
  by (simp only: select_topk_pairs_fl_keys [OF assms]
        keys_means_df_fl [OF select_topk_pairs_fl_SomeD(1) [OF assms]])

lemma get_top_frame_fl_body:
  "body (get_top_frame_fl fl df k)
     = map (\<lambda>r. output_row (vals r VALUE_COL)
                  (if AVG_COL \<in> set (columns df) then vals r AVG_COL
                   else row_group_mean_fl fl (\<lambda>r. vals r VALUE_COL) (rows df) r) r)
         (merge_inner (top_keys k (groupby_mean_fl fl VALUE_COL (rows df))) (rows df))"
proof (cases "AVG_COL \<in> set (columns df)")
  case True
  then show ?thesis
    by (simp add: get_top_frame_fl_def Let_def out_row_of_output_row)
next
  case False
  let ?means = "groupby_mean_fl fl VALUE_COL (rows df)"
  let ?keep = "merge_inner (top_keys k ?means) (rows df)"
  have "body (get_top_frame_fl fl df k)
      = map (\<lambda>r. output_row (vals r VALUE_COL) (lookup_mean ?means r) r) ?keep"
    using False by (simp add: get_top_frame_fl_def Let_def merge_left_def out_row_of_output_row)
  also have "\<dots> = map (\<lambda>r. output_row (vals r VALUE_COL)
                    (row_group_mean_fl fl (\<lambda>r. vals r VALUE_COL) (rows df) r) r) ?keep"
  proof (rule map_cong [OF refl])
    fix r assume "r \<in> set ?keep"
    with distinct_groupby_mean_fl groupby_mean_fl_snd
    have "lookup_mean ?means r = row_group_mean_fl fl (\<lambda>r. vals r VALUE_COL) (rows df) r"
      by (rule lookup_mean_selected)
    then show "output_row (vals r VALUE_COL) (lookup_mean ?means r) r
        = output_row (vals r VALUE_COL) (row_group_mean_fl fl (\<lambda>r. vals r VALUE_COL) (rows df) r) r"
      by simp
  qed
  finally show ?thesis using False by simp
qed

lemma group_keys_get_top_frame_fl:
  "group_keys_of (get_top_frame_fl fl df k)
     = set (top_keys k (groupby_mean_fl fl VALUE_COL (rows df)))"
proof -
  let ?means = "groupby_mean_fl fl VALUE_COL (rows df)"
  have sub: "set (top_keys k ?means) \<subseteq> all_groups (rows df)"
    using top_keys_subset [of k ?means] unfolding keys_groupby_mean_fl .
  show ?thesis
    unfolding group_keys_of_def get_top_frame_fl_body
    by (simp only: keys_output_rows all_groups_merge_inner [OF sub])
qed

lemma get_top_frame_fl_rows:
  "body (get_top_frame_fl fl df k)
     = map (\<lambda>r. output_row (vals r VALUE_COL)
                  (if AVG_COL \<in> set (columns df) then vals r AVG_COL
                   else row_group_mean_fl fl (\<lambda>r. vals r VALUE_COL) (rows df) r) r)
         (rows_of_groups (group_keys_of (get_top_frame_fl fl df k)) (rows df))"
  unfolding group_keys_get_top_frame_fl merge_inner_rows_of_groups [symmetric]
  by (rule get_top_frame_fl_body)

lemma get_top_frame_fl_card:
  "card (group_keys_of (get_top_frame_fl fl df k)) = min (nat k) (card (all_groups (rows df)))"
  by (simp only: group_keys_get_top_frame_fl card_top_keys [OF distinct_groupby_mean_fl]
        length_groupby_mean_fl)

section \<open>The group mean attached to the output rows\<close>

text \<open>
  Claim C1, as the code has it. In \<^verbatim>\<open>select_topk_pairs\<close>, every row of every metric's
  output has a group key, that group has at least one non-null value of the metric
  in the original input, and the row's \<^verbatim>\<open>average monthly concentration\<close> is the sum of
  exactly those non-null values divided by their number; so a group without a
  non-null value has no mean and no output row. In \<^verbatim>\<open>get_top\<close>, for a frame without an
  average column of its own, the attached mean of a row is the mean of the non-null
  values of its group, null when the group has none, and a group without a non-null
  value is selected only when \<open>k\<close> exceeds the number of groups that have a mean.
\<close>

theorem group_mean_attached:
  "(select_topk_pairs base mineral k m = Some f \<longrightarrow> out \<in> set (body f) \<longrightarrow>
      (\<exists>g. out_key out = Some g
         \<and> group_values (metric_value (filter_like mineral (columns base)) m) (rows base) g \<noteq> []
         \<and> average_monthly_concentration out =
             Some (sum_list (group_values (metric_value (filter_like mineral (columns base)) m)
                               (rows base) g)
                   / real (length (group_values (metric_value (filter_like mineral (columns base)) m)
                                     (rows base) g)))))
   \<and> (AVG_COL \<notin> set (columns df) \<longrightarrow> out' \<in> set (body (get_top_frame df k')) \<longrightarrow>
      (\<exists>g. out_key out' = Some g
         \<and> average_monthly_concentration out' = group_mean (\<lambda>r. vals r VALUE_COL) (rows df) g
         \<and> (g \<in> groups_with_mean (\<lambda>r. vals r VALUE_COL) (rows df)
              \<or> int (card (groups_with_mean (\<lambda>r. vals r VALUE_COL) (rows df))) < k')))"
  using select_topk_pairs_mean [of base mineral k m f out] get_top_frame_mean [of df out' k']
  by blast

text \<open>
  The witness: site \<^verbatim>\<open>A\<close> of \<open>ex_base\<close> for the metric \<^verbatim>\<open>Mg d\<close> with \<open>k = 1\<close>, and the
  null-valued site \<^verbatim>\<open>C\<close> of \<open>ex_df\<close> with \<open>k = 3\<close>.
\<close>

lemma ex_base_Mg_d:
  "select_topk_pairs ex_base ''Mg'' 1 ''Mg d'' =
     Some \<lparr> labels = out_labels,
            body = [out_row_of ''Mg d'' (Some 5)
                      (site_row ''A'' 1 2 ''2025-01'' [(''Mg d'', 4), (''Mg t'', 1)]),
                    out_row_of ''Mg d'' (Some 5)
                      (site_row ''A'' 1 2 ''2025-02'' [(''Mg d'', 6)])] \<rparr>"
  by code_simp

lemma ex_df_top3:
  "body (get_top_frame ex_df 3) =
     [out_row_of VALUE_COL (Some 3) (site_row ''A'' 1 2 ''2025-01'' [(''monthly concentration'', 2)]),
      out_row_of VALUE_COL (Some 3) (site_row ''A'' 1 2 ''2025-02'' [(''monthly concentration'', 4)]),
      out_row_of VALUE_COL (Some 1) (site_row ''B'' 3 4 ''2025-01'' [(''monthly concentration'', 1)]),
      out_row_of VALUE_COL None (site_row ''C'' 5 6 ''2025-01'' [])]"
  by code_simp

theorem group_mean_attached_witness:
  "(\<exists>g. out_key (out_row_of ''Mg d'' (Some 5) (site_row ''A'' 1 2 ''2025-02'' [(''Mg d'', 6)])) = Some g
      \<and> group_values (metric_value (filter_like ''Mg'' (columns ex_base)) ''Mg d'') (rows ex_base) g \<noteq> []
      \<and> Some 5 =
          Some (sum_list (group_values (metric_value (filter_like ''Mg'' (columns ex_base)) ''Mg d'')
                            (rows ex_base) g)
                / real (length (group_values (metric_value (filter_like ''Mg'' (columns ex_base)) ''Mg d'')
                                  (rows ex_base) g))))
   \<and> (\<exists>g. out_key (out_row_of VALUE_COL None (site_row ''C'' 5 6 ''2025-01'' [])) = Some g
      \<and> None = group_mean (\<lambda>r. vals r VALUE_COL) (rows ex_df) g
      \<and> (g \<in> groups_with_mean (\<lambda>r. vals r VALUE_COL) (rows ex_df)
           \<or> int (card (groups_with_mean (\<lambda>r. vals r VALUE_COL) (rows ex_df))) < 3))"
proof -
  let ?o1 = "out_row_of ''Mg d'' (Some 5) (site_row ''A'' 1 2 ''2025-02'' [(''Mg d'', 6)])"
  let ?o2 = "out_row_of VALUE_COL None (site_row ''C'' 5 6 ''2025-01'' [])"
  have h1: "?o1 \<in> set (body (the (select_topk_pairs ex_base ''Mg'' 1 ''Mg d'')))"
    by (simp add: ex_base_Mg_d)
  have h2: "AVG_COL \<notin> set (columns ex_df)"
    by (simp add: AVG_COL_def ex_df_def)
  have h3: "?o2 \<in> set (body (get_top_frame ex_df 3))"
    by (simp add: ex_df_top3)
  have a1: "average_monthly_concentration ?o1 = Some 5"
    and a2: "average_monthly_concentration ?o2 = None"
    by (simp_all add: out_row_of_def)
  show ?thesis
    using group_mean_attached [of ex_base "''Mg''" 1 "''Mg d''"
        "the (select_topk_pairs ex_base ''Mg'' 1 ''Mg d'')" ?o1 ex_df ?o2 3]
      ex_base_Mg_d h1 h2 h3
    unfolding a1 a2 by simp
qed

text \<open>
  The claim as stated fails in \<^verbatim>\<open>get_top\<close>: on a frame that has an average column of
  its own, the output carries that column (here 2) and not the mean of the group's
  values (here 2 and 4).
\<close>

theorem group_mean_attached_counterexample:
  "get_top [(''Mg'', [(''Total'', stale_df)])] 1 =
     [(''Mg'', [(''Total'',
        \<lparr> labels = out_labels,
          body = [out_row_of VALUE_COL (Some 2)
                    (site_row ''A'' 1 2 ''2025-01''
                       [(''monthly concentration'', 2), (''average monthly concentration'', 2)]),
                  out_row_of VALUE_COL (Some 2)
                    (site_row ''A'' 1 2 ''2025-02''
                       [(''monthly concentration'', 4), (''average monthly concentration'', 2)])] \<rparr>)])]
   \<and> group_values (\<lambda>r. vals r VALUE_COL) (rows stale_df) (''A'', 1, 2, ''W'') = [2, 4]"
  by code_simp

lemma select_topk_pairs_keys:
  assumes "select_topk_pairs base mineral k m = Some f"
  shows "group_keys_of f =
           set (top_keys k (means_df (Filtered_Base (filter_like mineral (columns base)) (rows base)) m))"
  by (simp only: select_topk_pairs_SomeD(2) [OF assms] group_keys_metric_frame)

lemma card_le_k: "int (min (nat k) n) \<le> max k 0"
  by simp

lemma groups_with_mean_selected:
  assumes "int (card (groups_with_mean (\<lambda>r. vals r m) rs)) \<le> k"
    and "g \<in> groups_with_mean (\<lambda>r. vals r m) rs"
  shows "g \<in> set (top_keys k (groupby_mean m rs))"
proof -
  from assms(2) have "g \<in> fst ` set (with_mean (groupby_mean m rs))"
    by (simp only: keys_with_mean_groupby)
  then obtain x where "(g, x) \<in> set (with_mean (groupby_mean m rs))" by force
  then have e: "(g, Some x) \<in> set (groupby_mean m rs)" by (simp add: set_with_mean)
  from assms(1) have "int (length (with_mean (groupby_mean m rs))) \<le> k"
    by (simp only: length_with_mean_groupby)
  from nlargest_has_all_means [OF this e] show ?thesis
    unfolding top_keys_def by force
qed

section \<open>The number of groups in the output\<close>

text \<open>
  Claim C2. The number of distinct group keys in a metric's filtered output is at
  most \<open>k\<close> (and none for a negative \<open>k\<close>, written \<open>max k 0\<close>); and when \<open>k\<close> is at least the number of groups that have a
  mean, every such group appears in the output (in \<^verbatim>\<open>select_topk_pairs\<close> the output's
  groups are then exactly those groups). Both hold for \<^verbatim>\<open>select_topk_pairs\<close> and for
  \<^verbatim>\<open>get_top\<close>.
\<close>

theorem at_most_k_groups:
  "(select_topk_pairs base mineral k m = Some f \<longrightarrow>
      int (card (group_keys_of f)) \<le> max k 0
      \<and> (int (card (groups_with_mean (metric_value (filter_like mineral (columns base)) m)
                      (rows base))) \<le> k \<longrightarrow>
           group_keys_of f
             = groups_with_mean (metric_value (filter_like mineral (columns base)) m) (rows base)))
   \<and> int (card (group_keys_of (get_top_frame df k'))) \<le> max k' 0
   \<and> (int (card (groups_with_mean (\<lambda>r. vals r VALUE_COL) (rows df))) \<le> k' \<longrightarrow>
        groups_with_mean (\<lambda>r. vals r VALUE_COL) (rows df) \<subseteq> group_keys_of (get_top_frame df k'))"
proof (intro conjI impI)
  let ?mm = "filter_like mineral (columns base)"
  let ?means = "means_df (Filtered_Base ?mm (rows base)) m"
  {
    assume sel: "select_topk_pairs base mineral k m = Some f"
    have card: "card (group_keys_of f) = min (nat k) (length ?means)"
      by (simp only: select_topk_pairs_keys [OF sel] card_top_keys [OF distinct_means_df])
    show "int (card (group_keys_of f)) \<le> max k 0"
      unfolding card by (rule card_le_k)
    {
      assume "int (card (groups_with_mean (metric_value ?mm m) (rows base))) \<le> k"
      then have "int (length ?means) \<le> k"
        by (simp only: length_means_df [OF select_topk_pairs_SomeD(1) [OF sel]])
      then have "set (top_keys k ?means) = fst ` set ?means"
        by (rule top_keys_all)
      then show "group_keys_of f = groups_with_mean (metric_value ?mm m) (rows base)"
        by (simp only: select_topk_pairs_keys [OF sel]
              keys_means_df [OF select_topk_pairs_SomeD(1) [OF sel]])
    }
  }
  show "int (card (group_keys_of (get_top_frame df k'))) \<le> max k' 0"
    unfolding group_keys_get_top_frame card_top_keys [OF distinct_groupby_mean]
    by (rule card_le_k)
  {
    assume "int (card (groups_with_mean (\<lambda>r. vals r VALUE_COL) (rows df))) \<le> k'"
    then show "groups_with_mean (\<lambda>r. vals r VALUE_COL) (rows df) \<subseteq> group_keys_of (get_top_frame df k')"
      unfolding group_keys_get_top_frame
      using groups_with_mean_selected [of VALUE_COL "rows df" k'] by blast
  }
qed

lemma ex_base_Mg_d_top2:
  "select_topk_pairs ex_base ''Mg'' 2 ''Mg d'' =
     Some \<lparr> labels = out_labels,
            body = [out_row_of ''Mg d'' (Some 5)
                      (site_row ''A'' 1 2 ''2025-01'' [(''Mg d'', 4), (''Mg t'', 1)]),
                    out_row_of ''Mg d'' (Some 5)
                      (site_row ''A'' 1 2 ''2025-02'' [(''Mg d'', 6)]),
                    out_row_of ''Mg d'' (Some 2)
                      (site_row ''B'' 3 4 ''2025-01'' [(''Mg d'', 2), (''Mg t'', 3)])] \<rparr>"
  by code_simp

lemma ex_base_Mg_d_groups:
  "groups_with_mean (metric_value (filter_like ''Mg'' (columns ex_base)) ''Mg d'') (rows ex_base)
     = {(''A'', 1, 2, ''W''), (''B'', 3, 4, ''W'')}"
  by code_simp

lemma ex_df_groups:
  "groups_with_mean (\<lambda>r. vals r VALUE_COL) (rows ex_df) = {(''A'', 1, 2, ''W''), (''B'', 3, 4, ''W'')}"
  by code_simp

theorem at_most_k_groups_witness:
  "int (card (group_keys_of (the (select_topk_pairs ex_base ''Mg'' 2 ''Mg d'')))) \<le> 2
   \<and> group_keys_of (the (select_topk_pairs ex_base ''Mg'' 2 ''Mg d''))
       = {(''A'', 1, 2, ''W''), (''B'', 3, 4, ''W'')}
   \<and> int (card (group_keys_of (get_top_frame ex_df 2))) \<le> 2
   \<and> {(''A'', 1, 2, ''W''), (''B'', 3, 4, ''W'')} \<subseteq> group_keys_of (get_top_frame ex_df 2)"
proof -
  have sel: "select_topk_pairs ex_base ''Mg'' 2 ''Mg d''
               = Some (the (select_topk_pairs ex_base ''Mg'' 2 ''Mg d''))"
    by (simp add: ex_base_Mg_d_top2)
  have c1: "int (card (groups_with_mean (metric_value (filter_like ''Mg'' (columns ex_base)) ''Mg d'')
                         (rows ex_base))) \<le> 2"
    and c2: "int (card (groups_with_mean (\<lambda>r. vals r VALUE_COL) (rows ex_df))) \<le> 2"
    by (simp_all add: ex_base_Mg_d_groups ex_df_groups)
  show ?thesis
    using at_most_k_groups [of ex_base "''Mg''" 2 "''Mg d''"
        "the (select_topk_pairs ex_base ''Mg'' 2 ''Mg d'')" ex_df 2] sel c1 c2
    by (simp add: ex_base_Mg_d_groups ex_df_groups)
qed

section \<open>The selected groups are those of highest mean\<close>

lemma top_keys_ranked:
  assumes d: "distinct (map fst es)"
    and gm: "\<And>e. e \<in> set es \<Longrightarrow> snd e = gm (fst e)"
    and g: "g \<in> set (top_keys k es)" and g': "g' \<in> fst ` set es" "g' \<notin> set (top_keys k es)"
  shows "mean_ge (gm g) (gm g')"
proof -
  from g top_keys_subset [of k es] have "g \<in> fst ` set es" by (rule_tac subsetD)
  then obtain e where e: "e \<in> set es" "fst e = g" by (elim imageE) simp
  from g'(1) obtain e' where e': "e' \<in> set es" "fst e' = g'" by (elim imageE) simp
  from e have 1: "(g, snd e) \<in> set es" by (simp add: e(2) [symmetric])
  from e' have 2: "(g', snd e') \<in> set es" by (simp add: e'(2) [symmetric])
  from top_keys_top [OF d 1 g 2 g'(2)] have "mean_ge (snd e) (snd e')" .
  then show ?thesis by (simp only: gm [OF e(1)] gm [OF e'(1)] e(2) e'(2))
qed

lemma rows_of_groups_key:
  assumes "r \<in> set (rows_of_groups S rs)"
  shows "\<exists>g \<in> S. key_of r = Some g"
  using assms by (auto simp: rows_of_groups_def split: option.splits)

lemma select_topk_pairs_fl_attached:
  assumes sel: "select_topk_pairs_fl fl base mineral k m = Some f" and out: "out \<in> set (body f)"
  shows "\<exists>g \<in> group_keys_of f.
           average_monthly_concentration out
             = group_mean_fl fl (metric_value_fl fl (filter_like mineral (columns base)) m) (rows base) g"
proof -
  let ?mm = "filter_like mineral (columns base)"
  from out obtain r where
    r: "r \<in> set (rows_of_groups (group_keys_of f) (filter (has_value ?mm) (rows base)))"
    and o: "out = output_row (metric_value_fl fl ?mm m r)
                    (row_group_mean_fl fl (metric_value_fl fl ?mm m) (rows base) r) r"
    unfolding select_topk_pairs_fl_body [OF sel] by auto
  from rows_of_groups_key [OF r] obtain g where g: "g \<in> group_keys_of f" "key_of r = Some g"
    by blast
  have "average_monthly_concentration out
          = group_mean_fl fl (metric_value_fl fl ?mm m) (rows base) g"
    unfolding o by (simp add: output_row_def row_group_mean_fl_def g(2))
  with g(1) show ?thesis by blast
qed

text \<open>
  Claim C3. The means are the ones pandas computes, in floats. The groups of a
  metric's output are the \<open>k\<close> groups of highest mean (all groups when there are fewer
  than \<open>k\<close>; none when \<open>k \<le> 0\<close>): a selected group's mean, which is the mean attached to
  its output rows in \<^verbatim>\<open>select_topk_pairs\<close>, is at least the mean of every group that is
  not selected, and the list of selected keys is ranked by mean, descending. In
  \<^verbatim>\<open>get_top\<close> a group without a non-null value has a null mean, which ranks below every
  number.
\<close>

theorem top_k_by_mean:
  "(select_topk_pairs_fl fl base mineral k m = Some f \<longrightarrow>
      group_keys_of f
        \<subseteq> groups_with_mean (metric_value_fl fl (filter_like mineral (columns base)) m) (rows base)
      \<and> card (group_keys_of f)
          = min (nat k)
              (card (groups_with_mean (metric_value_fl fl (filter_like mineral (columns base)) m)
                       (rows base)))
      \<and> (g \<in> group_keys_of f \<longrightarrow>
           g' \<in> groups_with_mean (metric_value_fl fl (filter_like mineral (columns base)) m) (rows base) \<longrightarrow>
           g' \<notin> group_keys_of f \<longrightarrow>
           mean_ge (group_mean_fl fl (metric_value_fl fl (filter_like mineral (columns base)) m)
                      (rows base) g)
                   (group_mean_fl fl (metric_value_fl fl (filter_like mineral (columns base)) m)
                      (rows base) g'))
      \<and> (out \<in> set (body f) \<longrightarrow>
           g' \<in> groups_with_mean (metric_value_fl fl (filter_like mineral (columns base)) m) (rows base) \<longrightarrow>
           g' \<notin> group_keys_of f \<longrightarrow>
           mean_ge (average_monthly_concentration out)
                   (group_mean_fl fl (metric_value_fl fl (filter_like mineral (columns base)) m)
                      (rows base) g'))
      \<and> set (top_keys k (means_df_fl fl
                 (Filtered_Base_fl fl (filter_like mineral (columns base)) (rows base)) m))
          = group_keys_of f
      \<and> sorted_wrt (\<lambda>a b. mean_ge
                       (group_mean_fl fl (metric_value_fl fl (filter_like mineral (columns base)) m)
                          (rows base) a)
                       (group_mean_fl fl (metric_value_fl fl (filter_like mineral (columns base)) m)
                          (rows base) b))
           (top_keys k (means_df_fl fl
              (Filtered_Base_fl fl (filter_like mineral (columns base)) (rows base)) m)))
   \<and> group_keys_of (get_top_frame_fl fl df k') \<subseteq> all_groups (rows df)
   \<and> card (group_keys_of (get_top_frame_fl fl df k')) = min (nat k') (card (all_groups (rows df)))
   \<and> (h \<in> group_keys_of (get_top_frame_fl fl df k') \<longrightarrow> h' \<in> all_groups (rows df) \<longrightarrow>
        h' \<notin> group_keys_of (get_top_frame_fl fl df k') \<longrightarrow>
        mean_ge (group_mean_fl fl (\<lambda>r. vals r VALUE_COL) (rows df) h)
                (group_mean_fl fl (\<lambda>r. vals r VALUE_COL) (rows df) h'))
   \<and> set (top_keys k' (groupby_mean_fl fl VALUE_COL (rows df)))
       = group_keys_of (get_top_frame_fl fl df k')
   \<and> sorted_wrt (\<lambda>a b. mean_ge (group_mean_fl fl (\<lambda>r. vals r VALUE_COL) (rows df) a)
                             (group_mean_fl fl (\<lambda>r. vals r VALUE_COL) (rows df) b))
        (top_keys k' (groupby_mean_fl fl VALUE_COL (rows df)))"
proof -
  let ?mm = "filter_like mineral (columns base)"
  let ?mv = "metric_value_fl fl ?mm m"
  let ?means = "means_df_fl fl (Filtered_Base_fl fl ?mm (rows base)) m"
  let ?gm = "groupby_mean_fl fl VALUE_COL (rows df)"
  let ?val = "\<lambda>r. vals r VALUE_COL"
  have A: "group_keys_of f \<subseteq> groups_with_mean ?mv (rows base)
      \<and> card (group_keys_of f) = min (nat k) (card (groups_with_mean ?mv (rows base)))
      \<and> (g \<in> group_keys_of f \<longrightarrow> g' \<in> groups_with_mean ?mv (rows base) \<longrightarrow>
           g' \<notin> group_keys_of f \<longrightarrow>
           mean_ge (group_mean_fl fl ?mv (rows base) g) (group_mean_fl fl ?mv (rows base) g'))
      \<and> (out \<in> set (body f) \<longrightarrow> g' \<in> groups_with_mean ?mv (rows base) \<longrightarrow>
           g' \<notin> group_keys_of f \<longrightarrow>
           mean_ge (average_monthly_concentration out) (group_mean_fl fl ?mv (rows base) g'))
      \<and> set (top_keys k ?means) = group_keys_of f
      \<and> sorted_wrt (\<lambda>a b. mean_ge (group_mean_fl fl ?mv (rows base) a)
                                (group_mean_fl fl ?mv (rows base) b))
           (top_keys k ?means)"
    if sel: "select_topk_pairs_fl fl base mineral k m = Some f"
  proof -
    note m = select_topk_pairs_fl_SomeD(1) [OF sel]
    note keys = select_topk_pairs_fl_keys [OF sel]
    have 1: "group_keys_of f \<subseteq> groups_with_mean ?mv (rows base)"
      using sel by (rule select_topk_pairs_fl_subset)
    have 2: "card (group_keys_of f) = min (nat k) (card (groups_with_mean ?mv (rows base)))"
      using sel by (rule select_topk_pairs_fl_card)
    have 3: "mean_ge (group_mean_fl fl ?mv (rows base) a) (group_mean_fl fl ?mv (rows base) g')"
      if "a \<in> group_keys_of f" "g' \<in> groups_with_mean ?mv (rows base)" "g' \<notin> group_keys_of f"
      for a
    proof (rule top_keys_ranked [OF distinct_means_df_fl])
      show "snd e = group_mean_fl fl ?mv (rows base) (fst e)" if "e \<in> set ?means" for e
        using m that by (rule means_df_fl_snd)
      show "a \<in> set (top_keys k ?means)" using that(1) unfolding keys .
      show "g' \<in> fst ` set ?means" using that(2) unfolding keys_means_df_fl [OF m] .
      show "g' \<notin> set (top_keys k ?means)" using that(3) unfolding keys .
    qed
    have 4: "mean_ge (average_monthly_concentration out) (group_mean_fl fl ?mv (rows base) g')"
      if o: "out \<in> set (body f)" and g': "g' \<in> groups_with_mean ?mv (rows base)"
        "g' \<notin> group_keys_of f"
    proof -
      from select_topk_pairs_fl_attached [OF sel o] obtain a where
        a: "a \<in> group_keys_of f"
        "average_monthly_concentration out = group_mean_fl fl ?mv (rows base) a"
        by blast
      from 3 [OF a(1) g'] show ?thesis by (simp only: a(2))
    qed
    have 5: "sorted_wrt (\<lambda>a b. mean_ge (group_mean_fl fl ?mv (rows base) a)
                                   (group_mean_fl fl ?mv (rows base) b))
           (top_keys k ?means)"
      by (rule sorted_top_keys) (rule means_df_fl_snd [OF m])
    from 1 2 3 4 5 keys show ?thesis by blast
  qed
  have keys: "group_keys_of (get_top_frame_fl fl df k') = set (top_keys k' ?gm)"
    by (rule group_keys_get_top_frame_fl)
  have B1: "group_keys_of (get_top_frame_fl fl df k') \<subseteq> all_groups (rows df)"
    using top_keys_subset [of k' ?gm] by (simp only: keys keys_groupby_mean_fl)
  have B2: "card (group_keys_of (get_top_frame_fl fl df k'))
              = min (nat k') (card (all_groups (rows df)))"
    by (rule get_top_frame_fl_card)
  have B3: "mean_ge (group_mean_fl fl ?val (rows df) h) (group_mean_fl fl ?val (rows df) h')"
    if "h \<in> group_keys_of (get_top_frame_fl fl df k')" "h' \<in> all_groups (rows df)"
      "h' \<notin> group_keys_of (get_top_frame_fl fl df k')"
  proof (rule top_keys_ranked [OF distinct_groupby_mean_fl])
    show "snd e = group_mean_fl fl ?val (rows df) (fst e)" if "e \<in> set ?gm" for e
      using that by (rule groupby_mean_fl_snd)
    show "h \<in> set (top_keys k' ?gm)" using that(1) unfolding keys .
    show "h' \<in> fst ` set ?gm" using that(2) unfolding keys_groupby_mean_fl .
    show "h' \<notin> set (top_keys k' ?gm)" using that(3) unfolding keys .
  qed
  have B4: "sorted_wrt (\<lambda>a b. mean_ge (group_mean_fl fl ?val (rows df) a)
                                  (group_mean_fl fl ?val (rows df) b))
        (top_keys k' ?gm)"
    by (rule sorted_top_keys) (rule groupby_mean_fl_snd)
  from A B1 B2 B3 B4 keys show ?thesis by blast
qed

text \<open>
  The witness, without rounding: with \<open>k = 1\<close>, site \<^verbatim>\<open>A\<close> (mean 5) is selected in
  \<open>ex_base\<close> for the metric \<^verbatim>\<open>Mg d\<close> and site \<^verbatim>\<open>B\<close> (mean 2) is not; in \<open>ex_df\<close> site \<^verbatim>\<open>A\<close> is
  selected and the null-valued site \<^verbatim>\<open>C\<close> is not.
\<close>

lemma ex_fl_Mg_d_top1:
  "select_topk_pairs_fl exact_ops ex_base ''Mg'' 1 ''Mg d''
     = Some (the (select_topk_pairs_fl exact_ops ex_base ''Mg'' 1 ''Mg d''))"
  "group_keys_of (the (select_topk_pairs_fl exact_ops ex_base ''Mg'' 1 ''Mg d''))
     = {(''A'', 1, 2, ''W'')}"
  "body (the (select_topk_pairs_fl exact_ops ex_base ''Mg'' 1 ''Mg d''))
     = [\<lparr> o_sampling_point = Some ''A'', o_lat = Some 1, o_long = Some 2,
           o_type = Some ''W'', o_year_month = Some ''2025-01'',
           monthly_concentration = Some 4, average_monthly_concentration = Some 5 \<rparr>,
         \<lparr> o_sampling_point = Some ''A'', o_lat = Some 1, o_long = Some 2,
           o_type = Some ''W'', o_year_month = Some ''2025-02'',
           monthly_concentration = Some 6, average_monthly_concentration = Some 5 \<rparr>]"
  "groups_with_mean (metric_value_fl exact_ops (filter_like ''Mg'' (columns ex_base)) ''Mg d'')
     (rows ex_base) = {(''A'', 1, 2, ''W''), (''B'', 3, 4, ''W'')}"
  "group_mean_fl exact_ops (metric_value_fl exact_ops (filter_like ''Mg'' (columns ex_base)) ''Mg d'')
     (rows ex_base) (''A'', 1, 2, ''W'') = Some 5"
  "group_mean_fl exact_ops (metric_value_fl exact_ops (filter_like ''Mg'' (columns ex_base)) ''Mg d'')
     (rows ex_base) (''B'', 3, 4, ''W'') = Some 2"
  by code_simp+

lemma ex_fl_df_top1:
  "group_keys_of (get_top_frame_fl exact_ops ex_df 1) = {(''A'', 1, 2, ''W'')}"
  "all_groups (rows ex_df) = {(''A'', 1, 2, ''W''), (''B'', 3, 4, ''W''), (''C'', 5, 6, ''W'')}"
  "group_mean_fl exact_ops (\<lambda>r. vals r VALUE_COL) (rows ex_df) (''A'', 1, 2, ''W'') = Some 3"
  "group_mean_fl exact_ops (\<lambda>r. vals r VALUE_COL) (rows ex_df) (''C'', 5, 6, ''W'') = None"
  by code_simp+

lemma ex_fl_top1_cards:
  "min (nat 1)
     (card (groups_with_mean (metric_value_fl exact_ops (filter_like ''Mg'' (columns ex_base)) ''Mg d'')
              (rows ex_base))) = 1"
  "min (nat 1) (card (all_groups (rows ex_df))) = 1"
  by code_simp+

theorem top_k_by_mean_witness:
  "group_keys_of (the (select_topk_pairs_fl exact_ops ex_base ''Mg'' 1 ''Mg d''))
     = {(''A'', 1, 2, ''W'')}
   \<and> card (group_keys_of (the (select_topk_pairs_fl exact_ops ex_base ''Mg'' 1 ''Mg d''))) = 1
   \<and> mean_ge (Some 5) (Some 2)
   \<and> mean_ge (average_monthly_concentration
                 \<lparr> o_sampling_point = Some ''A'', o_lat = Some 1, o_long = Some 2,
                   o_type = Some ''W'', o_year_month = Some ''2025-02'',
                   monthly_concentration = Some 6, average_monthly_concentration = Some 5 \<rparr>)
              (Some 2)
   \<and> group_keys_of (get_top_frame_fl exact_ops ex_df 1) = {(''A'', 1, 2, ''W'')}
   \<and> card (group_keys_of (get_top_frame_fl exact_ops ex_df 1)) = 1
   \<and> mean_ge (Some 3) None"
proof -
  let ?f = "the (select_topk_pairs_fl exact_ops ex_base ''Mg'' 1 ''Mg d'')"
  let ?o = "\<lparr> o_sampling_point = Some ''A'', o_lat = Some 1, o_long = Some 2,
              o_type = Some ''W'', o_year_month = Some ''2025-02'',
              monthly_concentration = Some 6, average_monthly_concentration = Some 5 \<rparr>"
  let ?mv = "metric_value_fl exact_ops (filter_like ''Mg'' (columns ex_base)) ''Mg d''"
  have a: "(''A'', 1, 2, ''W'') \<in> group_keys_of ?f"
    and b: "(''B'', 3, 4, ''W'') \<in> groups_with_mean ?mv (rows ex_base)"
    and nb: "(''B'', 3, 4, ''W'') \<notin> group_keys_of ?f"
    and o: "?o \<in> set (body ?f)"
    and h: "(''A'', 1, 2, ''W'') \<in> group_keys_of (get_top_frame_fl exact_ops ex_df 1)"
    and c: "(''C'', 5, 6, ''W'') \<in> all_groups (rows ex_df)"
    and nc: "(''C'', 5, 6, ''W'') \<notin> group_keys_of (get_top_frame_fl exact_ops ex_df 1)"
    by (simp_all add: ex_fl_Mg_d_top1(2,3,4) ex_fl_df_top1(1,2))
  from top_k_by_mean [of exact_ops ex_base "''Mg''" 1 "''Mg d''" ?f
        "(''A'', 1, 2, ''W'')" "(''B'', 3, 4, ''W'')" ?o ex_df 1
        "(''A'', 1, 2, ''W'')" "(''C'', 5, 6, ''W'')"] ex_fl_Mg_d_top1(1) a b nb o h c nc
  have "card (group_keys_of ?f) = min (nat 1) (card (groups_with_mean ?mv (rows ex_base)))
    \<and> mean_ge (group_mean_fl exact_ops ?mv (rows ex_base) (''A'', 1, 2, ''W''))
              (group_mean_fl exact_ops ?mv (rows ex_base) (''B'', 3, 4, ''W''))
    \<and> mean_ge (average_monthly_concentration ?o)
              (group_mean_fl exact_ops ?mv (rows ex_base) (''B'', 3, 4, ''W''))
    \<and> card (group_keys_of (get_top_frame_fl exact_ops ex_df 1))
        = min (nat 1) (card (all_groups (rows ex_df)))
    \<and> mean_ge (group_mean_fl exact_ops (\<lambda>r. vals r VALUE_COL) (rows ex_df) (''A'', 1, 2, ''W''))
              (group_mean_fl exact_ops (\<lambda>r. vals r VALUE_COL) (rows ex_df) (''C'', 5, 6, ''W''))"
    by blast
  then show ?thesis
    by (simp only: ex_fl_Mg_d_top1(2,5,6) ex_fl_top1_cards ex_fl_df_top1(1,3,4) simp_thms)
qed

section \<open>The synthetic total\<close>

lemma has_value_iff: "has_value mm r \<longleftrightarrow> non_null (map (vals r) mm) \<noteq> []"
  by (simp only: has_value_def list_ex_iff non_null_ne)

lemma metric_value_fl_Total:
  assumes "1 < length mm"
  shows "metric_value_fl fl mm ''Total'' = spec_total fl mm"
proof
  fix r
  show "metric_value_fl fl mm ''Total'' r = spec_total fl mm r"
    using assms
    by (simp add: metric_value_fl_def sum_min_count1_fl_def Let_def spec_total_def has_value_iff)
qed

lemma spec_total_has_value:
  "has_value mm r \<Longrightarrow> spec_total fl mm r = Some (fsum fl (non_null (map (vals r) mm)))"
  by (simp add: spec_total_def)

lemma rows_of_groups_filter: "r \<in> set (rows_of_groups S (filter P rs)) \<Longrightarrow> P r"
  by (simp add: rows_of_groups_def)

text \<open>
  Claim C4. The \<^verbatim>\<open>Total\<close> that \<^verbatim>\<open>sum(axis=1, min_count=1)\<close> gives a row is the sum of the
  row's non-null matched cells, and null when they are all null. When more than one
  column matches, \<^verbatim>\<open>select_topk_pairs\<close> returns a \<^verbatim>\<open>Total\<close>
  frame, and that frame is, row by row and in the order of the input, the input rows
  of the selected groups that have a non-null matched cell, each with the sum of its
  own non-null matched cells as its value. A row whose matched cells are all null has
  a null \<^verbatim>\<open>Total\<close> and contributes no observation: it is not in the output, it does not
  count in the mean of its group (the attached mean is the mean of the non-null
  totals of the group's rows), and a group of such rows only is not selected. The
  selected groups are \<open>k\<close> of the groups that have a total (all of them when there are
  fewer). With one matched column or none there is no \<^verbatim>\<open>Total\<close> frame (the base table
  having no column of that name).
\<close>

theorem total_derivation:
  "vals (add_total_fl fl cs r) ''Total'' = spec_total fl cs r
   \<and> (1 < length (filter_like mineral (columns base)) \<longrightarrow>
      (\<exists>f. select_topk_pairs_fl fl base mineral k ''Total'' = Some f
         \<and> body f
             = map (\<lambda>r. output_row
                          (Some (fsum fl (non_null (map (vals r) (filter_like mineral (columns base))))))
                          (row_group_mean_fl fl (spec_total fl (filter_like mineral (columns base)))
                             (rows base) r) r)
                 (rows_of_groups (group_keys_of f)
                    (filter (has_value (filter_like mineral (columns base))) (rows base)))
         \<and> group_keys_of f
             \<subseteq> groups_with_mean (spec_total fl (filter_like mineral (columns base))) (rows base)
         \<and> card (group_keys_of f)
             = min (nat k)
                 (card (groups_with_mean (spec_total fl (filter_like mineral (columns base)))
                          (rows base)))))
   \<and> (length (filter_like mineral (columns base)) \<le> 1 \<longrightarrow> ''Total'' \<notin> set (columns base) \<longrightarrow>
        select_topk_pairs_fl fl base mineral k ''Total'' = None)"
proof (intro conjI impI)
  let ?mm = "filter_like mineral (columns base)"
  show "vals (add_total_fl fl cs r) ''Total'' = spec_total fl cs r"
    by (simp add: add_total_fl_def sum_min_count1_fl_def Let_def spec_total_def has_value_iff)
  {
    assume len: "1 < length ?mm"
    then have "''Total'' \<in> set (metrics ?mm)" by (simp add: metrics_def)
    then obtain f where sel: "select_topk_pairs_fl fl base mineral k ''Total'' = Some f"
      by (simp add: select_topk_pairs_fl_apply)
    note tot = metric_value_fl_Total [OF len, of fl]
    have "body f
        = map (\<lambda>r. output_row (spec_total fl ?mm r)
                     (row_group_mean_fl fl (spec_total fl ?mm) (rows base) r) r)
            (rows_of_groups (group_keys_of f) (filter (has_value ?mm) (rows base)))"
      using select_topk_pairs_fl_body [OF sel] by (simp only: tot)
    also have "\<dots>
        = map (\<lambda>r. output_row (Some (fsum fl (non_null (map (vals r) ?mm))))
                     (row_group_mean_fl fl (spec_total fl ?mm) (rows base) r) r)
            (rows_of_groups (group_keys_of f) (filter (has_value ?mm) (rows base)))"
    proof (rule map_cong [OF refl])
      fix r assume "r \<in> set (rows_of_groups (group_keys_of f) (filter (has_value ?mm) (rows base)))"
      then have "has_value ?mm r" by (rule rows_of_groups_filter)
      then show "output_row (spec_total fl ?mm r)
                   (row_group_mean_fl fl (spec_total fl ?mm) (rows base) r) r
               = output_row (Some (fsum fl (non_null (map (vals r) ?mm))))
                   (row_group_mean_fl fl (spec_total fl ?mm) (rows base) r) r"
        by (simp only: spec_total_has_value)
    qed
    finally have b: "body f
        = map (\<lambda>r. output_row (Some (fsum fl (non_null (map (vals r) ?mm))))
                     (row_group_mean_fl fl (spec_total fl ?mm) (rows base) r) r)
            (rows_of_groups (group_keys_of f) (filter (has_value ?mm) (rows base)))" .
    have s: "group_keys_of f \<subseteq> groups_with_mean (spec_total fl ?mm) (rows base)"
      using select_topk_pairs_fl_subset [OF sel] by (simp only: tot)
    have c: "card (group_keys_of f)
          = min (nat k) (card (groups_with_mean (spec_total fl ?mm) (rows base)))"
      using select_topk_pairs_fl_card [OF sel] by (simp only: tot)
    from sel b s c
    show "\<exists>f. select_topk_pairs_fl fl base mineral k ''Total'' = Some f
         \<and> body f
             = map (\<lambda>r. output_row (Some (fsum fl (non_null (map (vals r) ?mm))))
                          (row_group_mean_fl fl (spec_total fl ?mm) (rows base) r) r)
                 (rows_of_groups (group_keys_of f) (filter (has_value ?mm) (rows base)))
         \<and> group_keys_of f \<subseteq> groups_with_mean (spec_total fl ?mm) (rows base)
         \<and> card (group_keys_of f)
             = min (nat k) (card (groups_with_mean (spec_total fl ?mm) (rows base)))"
      by blast
  }
  {
    assume len: "length ?mm \<le> 1" and nt: "''Total'' \<notin> set (columns base)"
    from nt set_filter_like [of mineral "columns base"]
    have "''Total'' \<notin> set ?mm" by blast
    with len have "''Total'' \<notin> set (metrics ?mm)"
      by (simp add: metrics_def)
    then show "select_topk_pairs_fl fl base mineral k ''Total'' = None"
      by (simp only: select_topk_pairs_fl_apply if_False)
  }
qed

text \<open>
  The witness, without rounding: in \<open>ex_base\<close> (mineral \<^verbatim>\<open>Mg\<close>, \<open>k = 2\<close>) the January row of
  site \<^verbatim>\<open>A\<close> has the total 4 + 1, its February row, with the cells 6 and null, the total
  6, and the row of site \<^verbatim>\<open>B\<close> the total 2 + 3; the row of site \<^verbatim>\<open>C\<close>, which has no
  magnesium cell and so a null total, is not in the output. \<^verbatim>\<open>Ca\<close> matches one column, and
  there is no \<^verbatim>\<open>Total\<close> frame.
\<close>

lemma ex_fl_Total_top2:
  "1 < length (filter_like ''Mg'' (columns ex_base))"
  "map (\<lambda>r. output_row
              (Some (fsum exact_ops (non_null (map (vals r) (filter_like ''Mg'' (columns ex_base))))))
              (row_group_mean_fl exact_ops (spec_total exact_ops (filter_like ''Mg'' (columns ex_base)))
                 (rows ex_base) r) r)
     (rows_of_groups (group_keys_of (the (select_topk_pairs_fl exact_ops ex_base ''Mg'' 2 ''Total'')))
        (filter (has_value (filter_like ''Mg'' (columns ex_base))) (rows ex_base)))
   = [\<lparr> o_sampling_point = Some ''A'', o_lat = Some 1, o_long = Some 2,
         o_type = Some ''W'', o_year_month = Some ''2025-01'',
         monthly_concentration = Some 5, average_monthly_concentration = Some (11 / 2) \<rparr>,
       \<lparr> o_sampling_point = Some ''A'', o_lat = Some 1, o_long = Some 2,
         o_type = Some ''W'', o_year_month = Some ''2025-02'',
         monthly_concentration = Some 6, average_monthly_concentration = Some (11 / 2) \<rparr>,
       \<lparr> o_sampling_point = Some ''B'', o_lat = Some 3, o_long = Some 4,
         o_type = Some ''W'', o_year_month = Some ''2025-01'',
         monthly_concentration = Some 5, average_monthly_concentration = Some 5 \<rparr>]"
  "min (nat 2)
     (card (groups_with_mean (spec_total exact_ops (filter_like ''Mg'' (columns ex_base)))
              (rows ex_base))) = 2"
  "length (filter_like ''Ca'' (columns ex_base)) \<le> 1"
  "''Total'' \<notin> set (columns ex_base)"
  "spec_total exact_ops [''Mg d'', ''Mg t''] (site_row ''A'' 1 2 ''2025-02'' [(''Mg d'', 6)]) = Some 6"
  "spec_total exact_ops [''Mg d'', ''Mg t''] (site_row ''C'' 5 6 ''2025-01'' [(''Ca'', 9)]) = None"
  by code_simp+

theorem total_derivation_witness:
  "body (the (select_topk_pairs_fl exact_ops ex_base ''Mg'' 2 ''Total''))
     = [\<lparr> o_sampling_point = Some ''A'', o_lat = Some 1, o_long = Some 2,
           o_type = Some ''W'', o_year_month = Some ''2025-01'',
           monthly_concentration = Some 5, average_monthly_concentration = Some (11 / 2) \<rparr>,
         \<lparr> o_sampling_point = Some ''A'', o_lat = Some 1, o_long = Some 2,
           o_type = Some ''W'', o_year_month = Some ''2025-02'',
           monthly_concentration = Some 6, average_monthly_concentration = Some (11 / 2) \<rparr>,
         \<lparr> o_sampling_point = Some ''B'', o_lat = Some 3, o_long = Some 4,
           o_type = Some ''W'', o_year_month = Some ''2025-01'',
           monthly_concentration = Some 5, average_monthly_concentration = Some 5 \<rparr>]
   \<and> card (group_keys_of (the (select_topk_pairs_fl exact_ops ex_base ''Mg'' 2 ''Total''))) = 2
   \<and> select_topk_pairs_fl exact_ops ex_base ''Ca'' 2 ''Total'' = None
   \<and> vals (add_total_fl exact_ops [''Mg d'', ''Mg t'']
              (site_row ''A'' 1 2 ''2025-02'' [(''Mg d'', 6)])) ''Total'' = Some 6
   \<and> vals (add_total_fl exact_ops [''Mg d'', ''Mg t'']
              (site_row ''C'' 5 6 ''2025-01'' [(''Ca'', 9)])) ''Total'' = None"
proof -
  from total_derivation [where fl = exact_ops and mineral = "''Mg''" and base = ex_base and k = 2
      and cs = "[''Mg d'', ''Mg t'']" and r = "site_row ''A'' 1 2 ''2025-02'' [(''Mg d'', 6)]"]
  have t1: "vals (add_total_fl exact_ops [''Mg d'', ''Mg t'']
              (site_row ''A'' 1 2 ''2025-02'' [(''Mg d'', 6)])) ''Total'' = Some 6"
    by (simp only: ex_fl_Total_top2(6))
  from total_derivation [where fl = exact_ops and mineral = "''Mg''" and base = ex_base and k = 2
      and cs = "[''Mg d'', ''Mg t'']" and r = "site_row ''C'' 5 6 ''2025-01'' [(''Ca'', 9)]"]
  have t2: "vals (add_total_fl exact_ops [''Mg d'', ''Mg t'']
              (site_row ''C'' 5 6 ''2025-01'' [(''Ca'', 9)])) ''Total'' = None"
    by (simp only: ex_fl_Total_top2(7))
  from total_derivation [where fl = exact_ops and mineral = "''Mg''" and base = ex_base and k = 2]
    ex_fl_Total_top2(1)
  obtain f where sel: "select_topk_pairs_fl exact_ops ex_base ''Mg'' 2 ''Total'' = Some f"
    and b: "body f
        = map (\<lambda>r. output_row
              (Some (fsum exact_ops (non_null (map (vals r) (filter_like ''Mg'' (columns ex_base))))))
              (row_group_mean_fl exact_ops (spec_total exact_ops (filter_like ''Mg'' (columns ex_base)))
                 (rows ex_base) r) r)
            (rows_of_groups (group_keys_of f)
               (filter (has_value (filter_like ''Mg'' (columns ex_base))) (rows ex_base)))"
    and c: "card (group_keys_of f)
          = min (nat 2)
              (card (groups_with_mean (spec_total exact_ops (filter_like ''Mg'' (columns ex_base)))
                       (rows ex_base)))"
    by blast
  from sel have f: "f = the (select_topk_pairs_fl exact_ops ex_base ''Mg'' 2 ''Total'')"
    by simp
  from total_derivation [where fl = exact_ops and mineral = "''Ca''" and base = ex_base and k = 2]
    ex_fl_Total_top2(4,5)
  have n: "select_topk_pairs_fl exact_ops ex_base ''Ca'' 2 ''Total'' = None"
    by blast
  from b c n t1 t2 show ?thesis
    unfolding f by (simp only: ex_fl_Total_top2(2,3) simp_thms)
qed

section \<open>Rows with a null value\<close>

lemma single_or_total_value_fl:
  assumes "m \<in> set (metrics mm)" and "length mm = 1 \<or> m = ''Total''"
    and "has_value mm r"
  shows "metric_value_fl fl mm m r \<noteq> None"
proof (cases "length mm > 1")
  case True
  with assms(2) have "metric_value_fl fl mm m r = sum_min_count1_fl fl (map (vals r) mm)"
    by (simp add: metric_value_fl_def)
  with assms(3) show ?thesis by (simp only: sum_min_count1_fl_ne has_value_def)
next
  case False
  with assms(1) have "m \<in> set mm" by (simp add: metrics_def)
  moreover from False metrics_nonempty [OF assms(1)] have "length mm = 1"
    by (cases mm) auto
  ultimately have "mm = [m]" by (cases mm) auto
  with assms(3) False show ?thesis by (simp add: metric_value_fl_def has_value_def)
qed

lemma set_rows_of_groups: "set (rows_of_groups S rs) \<subseteq> set rs"
  by (auto simp: rows_of_groups_def)

text \<open>
  Claim C5, as the code has it. In \<^verbatim>\<open>select_topk_pairs\<close> the means are taken, and the
  groups selected, over the rows with a non-null value for the metric, but the output
  is merged from \<^verbatim>\<open>Filtered_Base\<close>: the output of a metric is, row by row and in the
  order of the input, every input row of a selected group that has a non-null cell in
  at least one matched column, with that row's own value for the metric (null when
  the row has none) and the mean of its group. The selected groups are \<open>k\<close> of the
  groups that have a value for the metric (all of them when there are fewer). All
  values of the output are non-null when exactly one column matches, and for
  \<^verbatim>\<open>Total\<close>. The output of \<^verbatim>\<open>get_top\<close> is every row of the input frame that belongs to
  one of the \<open>k\<close> selected groups, with its value as it is.
\<close>

theorem output_rows_value:
  "(select_topk_pairs_fl fl base mineral k m = Some f \<longrightarrow>
      body f
        = map (\<lambda>r. output_row (metric_value_fl fl (filter_like mineral (columns base)) m r)
                     (row_group_mean_fl fl (metric_value_fl fl (filter_like mineral (columns base)) m)
                        (rows base) r) r)
            (rows_of_groups (group_keys_of f)
               (filter (has_value (filter_like mineral (columns base))) (rows base)))
      \<and> group_keys_of f
          \<subseteq> groups_with_mean (metric_value_fl fl (filter_like mineral (columns base)) m) (rows base)
      \<and> card (group_keys_of f)
          = min (nat k)
              (card (groups_with_mean (metric_value_fl fl (filter_like mineral (columns base)) m)
                       (rows base)))
      \<and> (length (filter_like mineral (columns base)) = 1 \<or> m = ''Total'' \<longrightarrow>
           list_all (\<lambda>out. monthly_concentration out \<noteq> None) (body f)))
   \<and> body (get_top_frame_fl fl df k')
       = map (\<lambda>r. output_row (vals r VALUE_COL)
                    (if AVG_COL \<in> set (columns df) then vals r AVG_COL
                     else row_group_mean_fl fl (\<lambda>r. vals r VALUE_COL) (rows df) r) r)
           (rows_of_groups (group_keys_of (get_top_frame_fl fl df k')) (rows df))
   \<and> card (group_keys_of (get_top_frame_fl fl df k')) = min (nat k') (card (all_groups (rows df)))"
proof (intro conjI impI)
  let ?mm = "filter_like mineral (columns base)"
  show "body (get_top_frame_fl fl df k')
       = map (\<lambda>r. output_row (vals r VALUE_COL)
                    (if AVG_COL \<in> set (columns df) then vals r AVG_COL
                     else row_group_mean_fl fl (\<lambda>r. vals r VALUE_COL) (rows df) r) r)
           (rows_of_groups (group_keys_of (get_top_frame_fl fl df k')) (rows df))"
    by (rule get_top_frame_fl_rows)
  show "card (group_keys_of (get_top_frame_fl fl df k')) = min (nat k') (card (all_groups (rows df)))"
    by (rule get_top_frame_fl_card)
  assume sel: "select_topk_pairs_fl fl base mineral k m = Some f"
  note m = select_topk_pairs_fl_SomeD(1) [OF sel]
  show b: "body f
        = map (\<lambda>r. output_row (metric_value_fl fl ?mm m r)
                     (row_group_mean_fl fl (metric_value_fl fl ?mm m) (rows base) r) r)
            (rows_of_groups (group_keys_of f) (filter (has_value ?mm) (rows base)))"
    using sel by (rule select_topk_pairs_fl_body)
  show "group_keys_of f \<subseteq> groups_with_mean (metric_value_fl fl ?mm m) (rows base)"
    using sel by (rule select_topk_pairs_fl_subset)
  show "card (group_keys_of f)
          = min (nat k) (card (groups_with_mean (metric_value_fl fl ?mm m) (rows base)))"
    using sel by (rule select_topk_pairs_fl_card)
  assume st: "length ?mm = 1 \<or> m = ''Total''"
  have "metric_value_fl fl ?mm m r \<noteq> None"
    if "r \<in> set (rows_of_groups (group_keys_of f) (filter (has_value ?mm) (rows base)))" for r
  proof -
    from that set_rows_of_groups [of "group_keys_of f" "filter (has_value ?mm) (rows base)"]
    have "has_value ?mm r" by auto
    with m st show ?thesis by (rule single_or_total_value_fl)
  qed
  then show "list_all (\<lambda>out. monthly_concentration out \<noteq> None) (body f)"
    unfolding b list_all_iff by (auto simp: output_row_def)
qed

text \<open>
  The claim as stated fails in \<^verbatim>\<open>select_topk_pairs\<close>: in \<open>ex_base\<close> the February row of
  site \<^verbatim>\<open>A\<close> has no \<^verbatim>\<open>Mg t\<close> reading, and it is in the output for \<^verbatim>\<open>Mg t\<close>, with a null
  value.
\<close>

theorem output_rows_value_counterexample:
  "select_topk_pairs ex_base ''Mg'' 2 ''Mg t'' =
     Some \<lparr> labels = out_labels,
            body = [\<lparr> o_sampling_point = Some ''A'', o_lat = Some 1, o_long = Some 2,
                      o_type = Some ''W'', o_year_month = Some ''2025-01'',
                      monthly_concentration = Some 1,
                      average_monthly_concentration = Some 1 \<rparr>,
                    \<lparr> o_sampling_point = Some ''A'', o_lat = Some 1, o_long = Some 2,
                      o_type = Some ''W'', o_year_month = Some ''2025-02'',
                      monthly_concentration = None,
                      average_monthly_concentration = Some 1 \<rparr>,
                    \<lparr> o_sampling_point = Some ''B'', o_lat = Some 3, o_long = Some 4,
                      o_type = Some ''W'', o_year_month = Some ''2025-01'',
                      monthly_concentration = Some 3,
                      average_monthly_concentration = Some 3 \<rparr>] \<rparr>"
  by code_simp

text \<open>
  The witness, without rounding: the output of \<open>ex_base\<close> for \<^verbatim>\<open>Mg t\<close> (\<open>k = 2\<close>) holds the
  February row of site \<^verbatim>\<open>A\<close> with a null value, between the two rows that have one; the
  output for \<^verbatim>\<open>Total\<close> (\<open>k = 1\<close>) has no null value; the output of \<^verbatim>\<open>get_top\<close> on \<open>ex_df\<close>
  (\<open>k = 3\<close>) holds the null-valued row of site \<^verbatim>\<open>C\<close>.
\<close>

lemma ex_fl_Mg_t_top2:
  "select_topk_pairs_fl exact_ops ex_base ''Mg'' 2 ''Mg t''
     = Some (the (select_topk_pairs_fl exact_ops ex_base ''Mg'' 2 ''Mg t''))"
  "map (\<lambda>r. output_row (metric_value_fl exact_ops (filter_like ''Mg'' (columns ex_base)) ''Mg t'' r)
              (row_group_mean_fl exact_ops
                 (metric_value_fl exact_ops (filter_like ''Mg'' (columns ex_base)) ''Mg t'')
                 (rows ex_base) r) r)
     (rows_of_groups (group_keys_of (the (select_topk_pairs_fl exact_ops ex_base ''Mg'' 2 ''Mg t'')))
        (filter (has_value (filter_like ''Mg'' (columns ex_base))) (rows ex_base)))
   = [\<lparr> o_sampling_point = Some ''A'', o_lat = Some 1, o_long = Some 2,
         o_type = Some ''W'', o_year_month = Some ''2025-01'',
         monthly_concentration = Some 1, average_monthly_concentration = Some 1 \<rparr>,
       \<lparr> o_sampling_point = Some ''A'', o_lat = Some 1, o_long = Some 2,
         o_type = Some ''W'', o_year_month = Some ''2025-02'',
         monthly_concentration = None, average_monthly_concentration = Some 1 \<rparr>,
       \<lparr> o_sampling_point = Some ''B'', o_lat = Some 3, o_long = Some 4,
         o_type = Some ''W'', o_year_month = Some ''2025-01'',
         monthly_concentration = Some 3, average_monthly_concentration = Some 3 \<rparr>]"
  "min (nat 2)
     (card (groups_with_mean (metric_value_fl exact_ops (filter_like ''Mg'' (columns ex_base)) ''Mg t'')
              (rows ex_base))) = 2"
  by code_simp+

lemma ex_fl_Total_top1:
  "select_topk_pairs_fl exact_ops ex_base ''Mg'' 1 ''Total''
     = Some (the (select_topk_pairs_fl exact_ops ex_base ''Mg'' 1 ''Total''))"
  by code_simp

lemma ex_fl_df_top3:
  "map (\<lambda>r. output_row (vals r VALUE_COL)
              (if AVG_COL \<in> set (columns ex_df) then vals r AVG_COL
               else row_group_mean_fl exact_ops (\<lambda>r. vals r VALUE_COL) (rows ex_df) r) r)
     (rows_of_groups (group_keys_of (get_top_frame_fl exact_ops ex_df 3)) (rows ex_df))
   = [\<lparr> o_sampling_point = Some ''A'', o_lat = Some 1, o_long = Some 2,
         o_type = Some ''W'', o_year_month = Some ''2025-01'',
         monthly_concentration = Some 2, average_monthly_concentration = Some 3 \<rparr>,
       \<lparr> o_sampling_point = Some ''A'', o_lat = Some 1, o_long = Some 2,
         o_type = Some ''W'', o_year_month = Some ''2025-02'',
         monthly_concentration = Some 4, average_monthly_concentration = Some 3 \<rparr>,
       \<lparr> o_sampling_point = Some ''B'', o_lat = Some 3, o_long = Some 4,
         o_type = Some ''W'', o_year_month = Some ''2025-01'',
         monthly_concentration = Some 1, average_monthly_concentration = Some 1 \<rparr>,
       \<lparr> o_sampling_point = Some ''C'', o_lat = Some 5, o_long = Some 6,
         o_type = Some ''W'', o_year_month = Some ''2025-01'',
         monthly_concentration = None, average_monthly_concentration = None \<rparr>]"
  "min (nat 3) (card (all_groups (rows ex_df))) = 3"
  by code_simp+

theorem output_rows_value_witness:
  "body (the (select_topk_pairs_fl exact_ops ex_base ''Mg'' 2 ''Mg t''))
     = [\<lparr> o_sampling_point = Some ''A'', o_lat = Some 1, o_long = Some 2,
           o_type = Some ''W'', o_year_month = Some ''2025-01'',
           monthly_concentration = Some 1, average_monthly_concentration = Some 1 \<rparr>,
         \<lparr> o_sampling_point = Some ''A'', o_lat = Some 1, o_long = Some 2,
           o_type = Some ''W'', o_year_month = Some ''2025-02'',
           monthly_concentration = None, average_monthly_concentration = Some 1 \<rparr>,
         \<lparr> o_sampling_point = Some ''B'', o_lat = Some 3, o_long = Some 4,
           o_type = Some ''W'', o_year_month = Some ''2025-01'',
           monthly_concentration = Some 3, average_monthly_concentration = Some 3 \<rparr>]
   \<and> card (group_keys_of (the (select_topk_pairs_fl exact_ops ex_base ''Mg'' 2 ''Mg t''))) = 2
   \<and> list_all (\<lambda>out. monthly_concentration out \<noteq> None)
        (body (the (select_topk_pairs_fl exact_ops ex_base ''Mg'' 1 ''Total'')))
   \<and> body (get_top_frame_fl exact_ops ex_df 3)
     = [\<lparr> o_sampling_point = Some ''A'', o_lat = Some 1, o_long = Some 2,
           o_type = Some ''W'', o_year_month = Some ''2025-01'',
           monthly_concentration = Some 2, average_monthly_concentration = Some 3 \<rparr>,
         \<lparr> o_sampling_point = Some ''A'', o_lat = Some 1, o_long = Some 2,
           o_type = Some ''W'', o_year_month = Some ''2025-02'',
           monthly_concentration = Some 4, average_monthly_concentration = Some 3 \<rparr>,
         \<lparr> o_sampling_point = Some ''B'', o_lat = Some 3, o_long = Some 4,
           o_type = Some ''W'', o_year_month = Some ''2025-01'',
           monthly_concentration = Some 1, average_monthly_concentration = Some 1 \<rparr>,
         \<lparr> o_sampling_point = Some ''C'', o_lat = Some 5, o_long = Some 6,
           o_type = Some ''W'', o_year_month = Some ''2025-01'',
           monthly_concentration = None, average_monthly_concentration = None \<rparr>]
   \<and> card (group_keys_of (get_top_frame_fl exact_ops ex_df 3)) = 3"
proof -
  note t1 = output_rows_value [of exact_ops ex_base "''Mg''" 2 "''Mg t''"
      "the (select_topk_pairs_fl exact_ops ex_base ''Mg'' 2 ''Mg t'')" ex_df 3]
  note t2 = output_rows_value [of exact_ops ex_base "''Mg''" 1 "''Total''"
      "the (select_topk_pairs_fl exact_ops ex_base ''Mg'' 1 ''Total'')" ex_df 3]
  from t1 ex_fl_Mg_t_top2(1)
  have A: "body (the (select_topk_pairs_fl exact_ops ex_base ''Mg'' 2 ''Mg t''))
        = map (\<lambda>r. output_row (metric_value_fl exact_ops (filter_like ''Mg'' (columns ex_base)) ''Mg t'' r)
              (row_group_mean_fl exact_ops
                 (metric_value_fl exact_ops (filter_like ''Mg'' (columns ex_base)) ''Mg t'')
                 (rows ex_base) r) r)
            (rows_of_groups (group_keys_of (the (select_topk_pairs_fl exact_ops ex_base ''Mg'' 2 ''Mg t'')))
               (filter (has_value (filter_like ''Mg'' (columns ex_base))) (rows ex_base)))"
    and B: "card (group_keys_of (the (select_topk_pairs_fl exact_ops ex_base ''Mg'' 2 ''Mg t'')))
          = min (nat 2)
              (card (groups_with_mean (metric_value_fl exact_ops (filter_like ''Mg'' (columns ex_base)) ''Mg t'')
                       (rows ex_base)))"
    and D: "body (get_top_frame_fl exact_ops ex_df 3)
       = map (\<lambda>r. output_row (vals r VALUE_COL)
                    (if AVG_COL \<in> set (columns ex_df) then vals r AVG_COL
                     else row_group_mean_fl exact_ops (\<lambda>r. vals r VALUE_COL) (rows ex_df) r) r)
           (rows_of_groups (group_keys_of (get_top_frame_fl exact_ops ex_df 3)) (rows ex_df))"
    and E: "card (group_keys_of (get_top_frame_fl exact_ops ex_df 3))
          = min (nat 3) (card (all_groups (rows ex_df)))"
    by blast+
  from t2 ex_fl_Total_top1
  have C: "list_all (\<lambda>out. monthly_concentration out \<noteq> None)
        (body (the (select_topk_pairs_fl exact_ops ex_base ''Mg'' 1 ''Total'')))"
    by blast
  from A B C D E show ?thesis
    by (simp only: ex_fl_Mg_t_top2(2,3) ex_fl_df_top3 simp_thms)
qed

section \<open>Nonpositive \<open>k\<close>\<close>

lemma merge_inner_Nil [simp]: "merge_inner [] rs = []"
  by (simp add: merge_inner_def split: option.splits)

lemma merge_inner_no_rows [simp]: "merge_inner tk [] = []"
  by (simp add: merge_inner_def)

lemma top_keys_nonpositive: "k \<le> 0 \<Longrightarrow> top_keys k es = []"
  by (simp add: top_keys_def nlargest_def)

lemma metric_frame_empty:
  assumes "k \<le> 0 \<or> FB = []"
  shows "metric_frame FB m k =
     \<lparr> labels = map (rename_label m ''monthly concentration'')
                     (keep_cols @ [m, ''average monthly concentration'']),
       body = [] \<rparr>"
  using assms by (auto simp: metric_frame_def merge_left_def top_keys_nonpositive)

lemma get_top_frame_empty:
  assumes "k \<le> 0 \<or> rows df = []"
  shows "get_top_frame df k = \<lparr> labels = keep_cols @ [VALUE_COL, AVG_COL], body = [] \<rparr>"
  using assms by (auto simp: get_top_frame_def Let_def merge_left_def top_keys_nonpositive)

lemma Filtered_Base_Nil [simp]: "Filtered_Base mm [] = []"
  by (simp add: Filtered_Base_def Let_def dropna_all_def)

lemma get_top_map:
  "get_top b k = map (\<lambda>(mineral, sub). (mineral, map (\<lambda>(name, df). (name, get_top_frame df k)) sub)) b"
  by (simp add: get_top_def)

text \<open>
  Claim C7, as the code has it. Neither function checks \<open>k\<close>: for \<open>k \<le> 0\<close>,
  \<^verbatim>\<open>nlargest\<close> selects nothing, and the call returns a result, in which every metric
  has a frame without rows (\<^verbatim>\<open>select_topk_pairs\<close> one frame per matched column and
  \<^verbatim>\<open>Total\<close>, \<^verbatim>\<open>get_top\<close> one frame per input frame).
\<close>

theorem nonpositive_k_empty_result:
  "k \<le> 0 \<longrightarrow>
     select_topk_pairs base mineral k m =
       (if m \<in> set (metrics (filter_like mineral (columns base)))
        then Some \<lparr> labels = map (rename_label m ''monthly concentration'')
                               (keep_cols @ [m, ''average monthly concentration'']),
                     body = [] \<rparr>
        else None)
     \<and> get_top b k =
         map (\<lambda>(mineral, sub).
                (mineral, map (\<lambda>(name, df).
                   (name, \<lparr> labels = keep_cols @ [VALUE_COL, AVG_COL], body = [] \<rparr>)) sub)) b"
proof (intro impI conjI)
  assume k: "k \<le> 0"
  then show "select_topk_pairs base mineral k m =
       (if m \<in> set (metrics (filter_like mineral (columns base)))
        then Some \<lparr> labels = map (rename_label m ''monthly concentration'')
                               (keep_cols @ [m, ''average monthly concentration'']),
                     body = [] \<rparr>
        else None)"
    by (simp only: select_topk_pairs_apply metric_frame_empty [OF disjI1])
  from k have "get_top_frame df k = \<lparr> labels = keep_cols @ [VALUE_COL, AVG_COL], body = [] \<rparr>" for df
    by (rule get_top_frame_empty [OF disjI1])
  then show "get_top b k =
         map (\<lambda>(mineral, sub).
                (mineral, map (\<lambda>(name, df).
                   (name, \<lparr> labels = keep_cols @ [VALUE_COL, AVG_COL], body = [] \<rparr>)) sub)) b"
    by (simp only: get_top_map)
qed

text \<open>The witness: \<open>k = 0\<close> on \<open>ex_base\<close>, metric \<^verbatim>\<open>Mg d\<close>, and on a dictionary holding \<open>ex_df\<close>.\<close>

theorem nonpositive_k_empty_result_witness:
  "select_topk_pairs ex_base ''Mg'' 0 ''Mg d'' = Some \<lparr> labels = out_labels, body = [] \<rparr>
   \<and> get_top [(''Mg'', [(''Total'', ex_df)])] 0
       = [(''Mg'', [(''Total'', \<lparr> labels = out_labels, body = [] \<rparr>)])]"
proof -
  have m: "''Mg d'' \<in> set (metrics (filter_like ''Mg'' (columns ex_base)))"
    by code_simp
  have l: "map (rename_label ''Mg d'' ''monthly concentration'')
             (keep_cols @ [''Mg d'', ''average monthly concentration'']) = out_labels"
    "keep_cols @ [VALUE_COL, AVG_COL] = out_labels"
    by code_simp+
  have "(0::int) \<le> 0" by simp
  with nonpositive_k_empty_result [of 0 ex_base "''Mg''" "''Mg d''" "[(''Mg'', [(''Total'', ex_df)])]"]
  show ?thesis
    by (simp only: m l if_True simp_thms list.map prod.case)
qed

text \<open>
  The claim as stated fails: with \<open>k = 0\<close> and with \<open>k = -1\<close> the call is not rejected,
  it returns a result with an empty frame.
\<close>

theorem nonpositive_k_counterexample:
  "select_topk_pairs ex_base ''Mg'' 0 ''Mg d'' = Some \<lparr> labels = out_labels, body = [] \<rparr>
   \<and> select_topk_pairs ex_base ''Mg'' (- 1) ''Total'' = Some \<lparr> labels = out_labels, body = [] \<rparr>
   \<and> get_top [(''Mg'', [(''Total'', ex_df)])] (- 1)
       = [(''Mg'', [(''Total'', \<lparr> labels = out_labels, body = [] \<rparr>)])]"
  by code_simp

section \<open>An input without rows\<close>

lemma metric_frame_call_eq:
  "metric_frame_call fl d FB m k
     = (case d of Object \<Rightarrow> Inl TypeError | Float64 \<Rightarrow> Inr (metric_frame_fl fl FB m k))"
  by (simp add: metric_frame_call_def nlargest_call_def metric_frame_fl_def top_keys_def
        split: dtype.splits)

lemma metrics_loop_eq:
  "metrics_loop fl mdt FB k ms out
     = (if list_ex (\<lambda>m. mdt m = Object) ms then Inl TypeError
        else Inr (fold (\<lambda>m out. out(m \<mapsto> metric_frame_fl fl FB m k)) ms out))"
proof (induction ms arbitrary: out)
  case Nil
  show ?case by simp
next
  case (Cons m ms)
  show ?case
  proof (cases "mdt m")
    case Object
    then show ?thesis by (simp add: metric_frame_call_eq)
  next
    case Float64
    then have "metrics_loop fl mdt FB k (m # ms) out
        = metrics_loop fl mdt FB k ms (out(m \<mapsto> metric_frame_fl fl FB m k))"
      by (simp add: metric_frame_call_eq)
    also have "\<dots> = (if list_ex (\<lambda>m. mdt m = Object) ms then Inl TypeError
        else Inr (fold (\<lambda>m out. out(m \<mapsto> metric_frame_fl fl FB m k)) ms
                    (out(m \<mapsto> metric_frame_fl fl FB m k))))"
      by (rule Cons.IH)
    finally show ?thesis using Float64
      by (simp add: list_ex_iff del: fun_upd_apply)
  qed
qed

lemma metric_dtype_Object:
  "list_ex (\<lambda>m. metric_dtype dt mm m = Object) (metrics mm) \<longleftrightarrow> list_ex (\<lambda>c. dt c = Object) mm"
  by (auto simp: metric_dtype_def metrics_def list_ex_iff)

lemma select_topk_pairs_call_eq:
  "select_topk_pairs_call fl dt base mineral k
     = (if mineral = [] \<or> list_ex (\<lambda>c. dt c = Object) (filter_like mineral (columns base))
        then Inl TypeError
        else Inr (select_topk_pairs_fl fl base mineral k))"
  by (simp add: select_topk_pairs_call_def Let_def metrics_loop_eq metric_dtype_Object
        select_topk_pairs_fl_def)

lemma metric_frame_fl_no_rows:
  "metric_frame_fl fl [] m k =
     \<lparr> labels = map (rename_label m ''monthly concentration'')
                     (keep_cols @ [m, ''average monthly concentration'']),
       body = [] \<rparr>"
  by (simp add: metric_frame_fl_def merge_left_def)

lemma Filtered_Base_fl_Nil: "Filtered_Base_fl fl mm [] = []"
  by (simp add: Filtered_Base_fl_def Let_def dropna_all_def)

text \<open>
  Claim C8, as the code has it. On a base table with no rows, a call of
  \<^verbatim>\<open>select_topk_pairs\<close> with a non-empty mineral name returns a result with one frame per
  metric (each matched column, and \<^verbatim>\<open>Total\<close> when more than one matches), every frame
  without rows, when the matched columns have a float dtype; when a matched column
  has the dtype \<^verbatim>\<open>object\<close>, as the columns of an empty table loaded by \<^verbatim>\<open>read_csv\<close> have,
  \<^verbatim>\<open>nlargest\<close> raises \<^verbatim>\<open>TypeError\<close> and the call returns nothing.
\<close>

theorem empty_input_empty_output:
  "rows base = [] \<longrightarrow>
     select_topk_pairs_call fl dt base mineral k
       = (if mineral = [] \<or> list_ex (\<lambda>c. dt c = Object) (filter_like mineral (columns base))
          then Inl TypeError
          else Inr (\<lambda>m. if m \<in> set (metrics (filter_like mineral (columns base)))
                         then Some \<lparr> labels = map (rename_label m ''monthly concentration'')
                                                (keep_cols @ [m, ''average monthly concentration'']),
                                      body = [] \<rparr>
                         else None))"
proof
  assume "rows base = []"
  then have "Filtered_Base_fl fl (filter_like mineral (columns base)) (rows base) = []"
    by (simp only: Filtered_Base_fl_Nil)
  then have "select_topk_pairs_fl fl base mineral k
      = (\<lambda>m. if m \<in> set (metrics (filter_like mineral (columns base)))
              then Some \<lparr> labels = map (rename_label m ''monthly concentration'')
                                     (keep_cols @ [m, ''average monthly concentration'']),
                           body = [] \<rparr>
              else None)"
    by (intro ext) (simp only: select_topk_pairs_fl_apply metric_frame_fl_no_rows)
  then show "select_topk_pairs_call fl dt base mineral k
       = (if mineral = [] \<or> list_ex (\<lambda>c. dt c = Object) (filter_like mineral (columns base))
          then Inl TypeError
          else Inr (\<lambda>m. if m \<in> set (metrics (filter_like mineral (columns base)))
                         then Some \<lparr> labels = map (rename_label m ''monthly concentration'')
                                                (keep_cols @ [m, ''average monthly concentration'']),
                                      body = [] \<rparr>
                         else None))"
    by (simp only: select_topk_pairs_call_eq)
qed

text \<open>
  The witness: the table \<open>empty_base\<close> with float columns and \<open>k = 5\<close> gives an empty frame
  for \<^verbatim>\<open>Mg d\<close>, \<^verbatim>\<open>Mg t\<close> and \<^verbatim>\<open>Total\<close> and none for \<^verbatim>\<open>Ca\<close>; with the column \<^verbatim>\<open>Mg t\<close> of dtype
  \<^verbatim>\<open>object\<close> the call raises \<^verbatim>\<open>TypeError\<close>.
\<close>

lemma ex_empty_base:
  "rows empty_base = []"
  "(if ''Mg'' = [] \<or> list_ex (\<lambda>c. float_columns c = Object) (filter_like ''Mg'' (columns empty_base))
    then Inl TypeError
    else Inr (\<lambda>m. if m \<in> set (metrics (filter_like ''Mg'' (columns empty_base)))
                   then Some \<lparr> labels = map (rename_label m ''monthly concentration'')
                                          (keep_cols @ [m, ''average monthly concentration'']),
                                body = [] \<rparr>
                   else None))
   = Inr (\<lambda>m. if m \<in> {''Mg d'', ''Mg t'', ''Total''}
               then Some \<lparr> labels = map (rename_label m ''monthly concentration'')
                                      (keep_cols @ [m, ''average monthly concentration'']),
                            body = [] \<rparr>
               else None)"
  "(if ''Mg'' = [] \<or> list_ex (\<lambda>c. object_Mg_t c = Object) (filter_like ''Mg'' (columns empty_base))
    then Inl TypeError
    else Inr (\<lambda>m. if m \<in> set (metrics (filter_like ''Mg'' (columns empty_base)))
                   then Some \<lparr> labels = map (rename_label m ''monthly concentration'')
                                          (keep_cols @ [m, ''average monthly concentration'']),
                                body = [] \<rparr>
                   else None))
   = Inl TypeError"
proof -
  have mm: "filter_like ''Mg'' (columns empty_base) = [''Mg d'', ''Mg t'']"
    by code_simp
  show "rows empty_base = []" by (simp add: empty_base_def)
  show "(if ''Mg'' = [] \<or> list_ex (\<lambda>c. float_columns c = Object) (filter_like ''Mg'' (columns empty_base))
    then Inl TypeError
    else Inr (\<lambda>m. if m \<in> set (metrics (filter_like ''Mg'' (columns empty_base)))
                   then Some \<lparr> labels = map (rename_label m ''monthly concentration'')
                                          (keep_cols @ [m, ''average monthly concentration'']),
                                body = [] \<rparr>
                   else None))
   = Inr (\<lambda>m. if m \<in> {''Mg d'', ''Mg t'', ''Total''}
               then Some \<lparr> labels = map (rename_label m ''monthly concentration'')
                                      (keep_cols @ [m, ''average monthly concentration'']),
                            body = [] \<rparr>
               else None)"
    unfolding mm by (simp add: float_columns_def metrics_def)
  show "(if ''Mg'' = [] \<or> list_ex (\<lambda>c. object_Mg_t c = Object) (filter_like ''Mg'' (columns empty_base))
    then Inl TypeError
    else Inr (\<lambda>m. if m \<in> set (metrics (filter_like ''Mg'' (columns empty_base)))
                   then Some \<lparr> labels = map (rename_label m ''monthly concentration'')
                                          (keep_cols @ [m, ''average monthly concentration'']),
                                body = [] \<rparr>
                   else None))
   = Inl TypeError"
    unfolding mm by (simp add: object_Mg_t_def)
qed

theorem empty_input_empty_output_witness:
  "select_topk_pairs_call exact_ops float_columns empty_base ''Mg'' 5
     = Inr (\<lambda>m. if m \<in> {''Mg d'', ''Mg t'', ''Total''}
                 then Some \<lparr> labels = map (rename_label m ''monthly concentration'')
                                        (keep_cols @ [m, ''average monthly concentration'']),
                              body = [] \<rparr>
                 else None)
   \<and> select_topk_pairs_call exact_ops object_Mg_t empty_base ''Mg'' 5 = Inl TypeError"
  using empty_input_empty_output [of empty_base exact_ops float_columns "''Mg''" 5]
    empty_input_empty_output [of empty_base exact_ops object_Mg_t "''Mg''" 5]
  by (simp only: ex_empty_base simp_thms)

text \<open>
  The claim as stated fails: on the empty table with the columns as \<^verbatim>\<open>read_csv\<close> loads
  them the call raises \<^verbatim>\<open>TypeError\<close>, at the first metric.
\<close>

theorem empty_input_counterexample:
  "rows empty_base = []
   \<and> select_topk_pairs_call exact_ops object_columns empty_base ''Mg'' 5 = Inl TypeError
   \<and> metric_frame_call exact_ops (object_columns ''Mg d'')
        (Filtered_Base_fl exact_ops (filter_like ''Mg'' (columns empty_base)) (rows empty_base))
        ''Mg d'' 5 = Inl TypeError"
proof -
  have "filter_like ''Mg'' (columns empty_base) = [''Mg d'', ''Mg t'']"
    by code_simp
  then show ?thesis
    by (simp add: select_topk_pairs_call_eq metric_frame_call_eq object_columns_def empty_base_def)
qed

section \<open>A single matched column has no total\<close>

text \<open>
  Claim C9. When the mineral's name matches exactly one column of the base table
  (the table has no column itself labelled \<^verbatim>\<open>Total\<close>), the result of
  \<^verbatim>\<open>select_topk_pairs\<close> has no \<^verbatim>\<open>Total\<close> key, and \<^verbatim>\<open>build_geo_fig\<close> on that result raises
  \<^verbatim>\<open>KeyError\<close>.
\<close>

theorem single_column_no_total:
  assumes "length (filter_like mineral (columns base)) = 1"
    and "''Total'' \<notin> set (columns base)"
  shows "select_topk_pairs base mineral k ''Total'' = None
     \<and> build_geo_fig (select_topk_pairs base mineral k) mineral k = Inl (KeyError ''Total'')"
proof -
  from assms(2) set_filter_like [of mineral "columns base"]
  have "''Total'' \<notin> set (filter_like mineral (columns base))" by blast
  with assms(1) have "''Total'' \<notin> set (metrics (filter_like mineral (columns base)))"
    by (simp add: metrics_def)
  then have "select_topk_pairs base mineral k ''Total'' = None"
    by (simp only: select_topk_pairs_apply if_False)
  then show ?thesis by (simp add: build_geo_fig_def)
qed

text \<open>The witness: \<^verbatim>\<open>Ca\<close> matches one column of \<open>ex_base\<close>.\<close>

theorem single_column_no_total_witness:
  "select_topk_pairs ex_base ''Ca'' 5 ''Total'' = None
   \<and> build_geo_fig (select_topk_pairs ex_base ''Ca'' 5) ''Ca'' 5 = Inl (KeyError ''Total'')"
proof -
  have 1: "length (filter_like ''Ca'' (columns ex_base)) = 1"
    by code_simp
  have 2: "''Total'' \<notin> set (columns ex_base)"
    by code_simp
  from single_column_no_total [OF 1 2] show ?thesis .
qed

section \<open>The attached mean is not null\<close>

lemma get_top_frame_own_rows:
  assumes "AVG_COL \<in> set (columns df)"
  shows "map (\<lambda>r. (out_key r, o_year_month r, monthly_concentration r,
                   average_monthly_concentration r))
           (body (get_top_frame df k))
       = map (\<lambda>r. (key_of r, year_month r, vals r VALUE_COL, vals r AVG_COL))
           (rows_of_groups (group_keys_of (get_top_frame df k)) (rows df))"
proof -
  have "body (get_top_frame df k)
      = map (\<lambda>r. out_row_of VALUE_COL (vals r AVG_COL) r)
          (rows_of_groups (set (top_keys k (groupby_mean VALUE_COL (rows df)))) (rows df))"
    using assms by (simp add: get_top_frame_def Let_def merge_inner_rows_of_groups)
  then show ?thesis
    by (simp add: group_keys_get_top_frame comp_def out_key_out_row_of)
       (simp add: out_row_of_def)
qed

text \<open>
  Claim C10, as the code has it. In \<^verbatim>\<open>select_topk_pairs\<close> every output row's attached
  mean is non-null. In \<^verbatim>\<open>get_top\<close>, on a frame without an average column of its own,
  the attached mean of a row is non-null exactly when the row's group has a non-null
  value; on a frame with an average column of its own, the output is, row by row and
  in order, the rows of the selected groups, each with its own cell of that column
  as the attached value, null where that cell is null.
\<close>

theorem attached_mean_not_null:
  "(select_topk_pairs base mineral k m = Some f \<longrightarrow> out \<in> set (body f) \<longrightarrow>
      average_monthly_concentration out \<noteq> None)
   \<and> (AVG_COL \<notin> set (columns df) \<longrightarrow> out' \<in> set (body (get_top_frame df k')) \<longrightarrow>
        (\<exists>g. out_key out' = Some g
           \<and> (average_monthly_concentration out' \<noteq> None
                \<longleftrightarrow> g \<in> groups_with_mean (\<lambda>r. vals r VALUE_COL) (rows df))))
   \<and> (AVG_COL \<in> set (columns df) \<longrightarrow>
        map (\<lambda>r. (out_key r, o_year_month r, monthly_concentration r,
                  average_monthly_concentration r))
          (body (get_top_frame df k'))
        = map (\<lambda>r. (key_of r, year_month r, vals r VALUE_COL, vals r AVG_COL))
            (rows_of_groups (group_keys_of (get_top_frame df k')) (rows df)))"
proof (intro conjI impI)
  show "average_monthly_concentration out \<noteq> None"
    if "select_topk_pairs base mineral k m = Some f" "out \<in> set (body f)"
    using select_topk_pairs_mean [OF that] by auto
  show "\<exists>g. out_key out' = Some g
           \<and> (average_monthly_concentration out' \<noteq> None
                \<longleftrightarrow> g \<in> groups_with_mean (\<lambda>r. vals r VALUE_COL) (rows df))"
    if "AVG_COL \<notin> set (columns df)" "out' \<in> set (body (get_top_frame df k'))"
  proof -
    from get_top_frame_mean [OF that] obtain g where
      g: "out_key out' = Some g"
      "average_monthly_concentration out' = group_mean (\<lambda>r. vals r VALUE_COL) (rows df) g"
      by blast
    from g(2) have "average_monthly_concentration out' \<noteq> None
        \<longleftrightarrow> g \<in> groups_with_mean (\<lambda>r. vals r VALUE_COL) (rows df)"
      by (simp only: group_mean_None_iff simp_thms)
    with g(1) show ?thesis by blast
  qed
  show "map (\<lambda>r. (out_key r, o_year_month r, monthly_concentration r,
                  average_monthly_concentration r))
          (body (get_top_frame df k'))
        = map (\<lambda>r. (key_of r, year_month r, vals r VALUE_COL, vals r AVG_COL))
            (rows_of_groups (group_keys_of (get_top_frame df k')) (rows df))"
    if "AVG_COL \<in> set (columns df)"
    using that by (rule get_top_frame_own_rows)
qed

text \<open>
  The witness: site \<^verbatim>\<open>A\<close> of \<open>ex_base\<close> for \<^verbatim>\<open>Mg d\<close> (\<open>k = 1\<close>), the null-valued site \<^verbatim>\<open>C\<close> of
  \<open>ex_df\<close> (\<open>k = 3\<close>), and \<open>mixed_avg_df\<close> (\<open>k = 1\<close>), whose two output rows carry their
  own cells 10 and null.
\<close>

lemma mixed_avg_df_rows:
  "map (\<lambda>r. (key_of r, year_month r, vals r VALUE_COL, vals r AVG_COL))
     (rows_of_groups (group_keys_of (get_top_frame mixed_avg_df 1)) (rows mixed_avg_df))
   = [(Some (''A'', 1, 2, ''W''), Some ''2025-01'', Some 2, Some 10),
      (Some (''A'', 1, 2, ''W''), Some ''2025-02'', Some 4, None)]"
  by code_simp

theorem attached_mean_not_null_witness:
  "average_monthly_concentration
      (out_row_of ''Mg d'' (Some 5) (site_row ''A'' 1 2 ''2025-02'' [(''Mg d'', 6)])) \<noteq> None
   \<and> (\<exists>g. out_key (out_row_of VALUE_COL None (site_row ''C'' 5 6 ''2025-01'' [])) = Some g
        \<and> (average_monthly_concentration (out_row_of VALUE_COL None (site_row ''C'' 5 6 ''2025-01'' []))
              \<noteq> None
             \<longleftrightarrow> g \<in> groups_with_mean (\<lambda>r. vals r VALUE_COL) (rows ex_df)))
   \<and> map (\<lambda>r. (out_key r, o_year_month r, monthly_concentration r,
                average_monthly_concentration r))
        (body (get_top_frame mixed_avg_df 1))
      = [(Some (''A'', 1, 2, ''W''), Some ''2025-01'', Some 2, Some 10),
         (Some (''A'', 1, 2, ''W''), Some ''2025-02'', Some 4, None)]"
proof -
  let ?o1 = "out_row_of ''Mg d'' (Some 5) (site_row ''A'' 1 2 ''2025-02'' [(''Mg d'', 6)])"
  let ?o2 = "out_row_of VALUE_COL None (site_row ''C'' 5 6 ''2025-01'' [])"
  have s1: "select_topk_pairs ex_base ''Mg'' 1 ''Mg d''
              = Some (the (select_topk_pairs ex_base ''Mg'' 1 ''Mg d''))"
    and m1: "?o1 \<in> set (body (the (select_topk_pairs ex_base ''Mg'' 1 ''Mg d'')))"
    by (simp_all add: ex_base_Mg_d)
  have c2: "AVG_COL \<notin> set (columns ex_df)"
    by (simp add: AVG_COL_def ex_df_def)
  have m2: "?o2 \<in> set (body (get_top_frame ex_df 3))"
    by (simp add: ex_df_top3)
  have c3: "AVG_COL \<in> set (columns mixed_avg_df)"
    by (simp add: AVG_COL_def mixed_avg_df_def)
  from attached_mean_not_null [of ex_base "''Mg''" 1 "''Mg d''"
      "the (select_topk_pairs ex_base ''Mg'' 1 ''Mg d'')" ?o1 ex_df ?o2 3] s1 m1 c2 m2
  have A: "average_monthly_concentration ?o1 \<noteq> None"
    and B: "\<exists>g. out_key ?o2 = Some g
        \<and> (average_monthly_concentration ?o2 \<noteq> None
             \<longleftrightarrow> g \<in> groups_with_mean (\<lambda>r. vals r VALUE_COL) (rows ex_df))"
    by blast+
  from attached_mean_not_null [of ex_base "''Mg''" 1 "''Mg d''"
      "the (select_topk_pairs ex_base ''Mg'' 1 ''Mg d'')" ?o1 mixed_avg_df ?o2 1] c3
  have C: "map (\<lambda>r. (out_key r, o_year_month r, monthly_concentration r,
                average_monthly_concentration r))
        (body (get_top_frame mixed_avg_df 1))
      = [(Some (''A'', 1, 2, ''W''), Some ''2025-01'', Some 2, Some 10),
         (Some (''A'', 1, 2, ''W''), Some ''2025-02'', Some 4, None)]"
    by (simp only: mixed_avg_df_rows)
  from A B C show ?thesis by blast
qed

text \<open>
  The claim as stated fails in \<^verbatim>\<open>get_top\<close>: on a frame whose own average column has a
  null cell, the output row carries that null, whatever the mean of the group's
  values (here 2) is.
\<close>

theorem attached_mean_not_null_counterexample:
  "get_top [(''Mg'', [(''Total'', null_avg_df)])] 5 =
     [(''Mg'', [(''Total'',
        \<lparr> labels = out_labels,
          body = [\<lparr> o_sampling_point = Some ''A'', o_lat = Some 1, o_long = Some 2,
                    o_type = Some ''W'', o_year_month = Some ''2025-01'',
                    monthly_concentration = Some 2,
                    average_monthly_concentration = None \<rparr>] \<rparr>)])]
   \<and> groupby_mean VALUE_COL (rows null_avg_df) = [((''A'', 1, 2, ''W''), Some 2)]"
  by code_simp

section \<open>The shared snapshot and the figure builders\<close>

text \<open>
  Claim C6 fails in \<^verbatim>\<open>Top20DB.py\<close>. With \<^verbatim>\<open>BASE = get_top(raw, 1)\<close> for a dictionary holding
  \<open>ex_df\<close>, one call of \<^verbatim>\<open>build_dot_fig(BASE, "Mg")\<close> leaves \<^verbatim>\<open>BASE\<close> with the columns
  \<^verbatim>\<open>YearMonth\<close> and \<^verbatim>\<open>monthly concentration\<close> of its frame renamed to \<^verbatim>\<open>Time\<close> and
  \<^verbatim>\<open>Detected Concentration\<close>: the shared snapshot is not what it was before the call.
  The builder of \<^verbatim>\<open>20DB.py\<close> returns the same figures and leaves \<^verbatim>\<open>BASE\<close> as it was.
\<close>

theorem build_dot_fig_mutates_BASE:
  "ex_BASE =
     [(''Mg'', [(''Total'',
        \<lparr> labels = [''Sampling Point'', ''lat'', ''long'', ''Type'', ''YearMonth'',
                    ''monthly concentration'', ''average monthly concentration''],
          body = [out_row_of VALUE_COL (Some 3)
                    (site_row ''A'' 1 2 ''2025-01'' [(''monthly concentration'', 2)]),
                  out_row_of VALUE_COL (Some 3)
                    (site_row ''A'' 1 2 ''2025-02'' [(''monthly concentration'', 4)])] \<rparr>)])]
   \<and> snd (build_dot_fig_Top20DB ex_BASE ''Mg'') =
     [(''Mg'', [(''Total'',
        \<lparr> labels = [''Sampling Point'', ''lat'', ''long'', ''Type'', ''Time'',
                    ''Detected Concentration'', ''average monthly concentration''],
          body = [out_row_of VALUE_COL (Some 3)
                    (site_row ''A'' 1 2 ''2025-01'' [(''monthly concentration'', 2)]),
                  out_row_of VALUE_COL (Some 3)
                    (site_row ''A'' 1 2 ''2025-02'' [(''monthly concentration'', 4)])] \<rparr>)])]
   \<and> snd (build_dot_fig_Top20DB ex_BASE ''Mg'') \<noteq> ex_BASE
   \<and> snd (build_dot_fig_20DB ex_BASE ''Mg'') = ex_BASE
   \<and> fst (build_dot_fig_20DB ex_BASE ''Mg'') = fst (build_dot_fig_Top20DB ex_BASE ''Mg'')"
  by code_simp

end
